theory Spec2Isabelle
  imports Main
begin

section \<open>go-logger: a zap-based logger facade (logger/logger.go)\<close>

text \<open>
  The package keeps three package-level variables (\<open>Log\<close>, \<open>serviceName\<close>, \<open>envName\<close>) and
  exports \<open>Init\<close>, \<open>New\<close> and \<open>Sync\<close>. The model threads these variables through every
  operation as an explicit state record. Go strings are byte sequences and are modelled as
  \<^typ>\<open>string\<close> (lists of 8-bit characters); \<open>byte\<close> reads a character as a number. Runes
  are Go's \<open>int32\<close> code points, modelled as \<^typ>\<open>int\<close>.
\<close>

abbreviation byte :: "char \<Rightarrow> int" where
  "byte \<equiv> of_char"

subsection \<open>UTF-8 (package \<open>unicode/utf8\<close>)\<close>

definition RuneError :: int where
  "RuneError = 0xFFFD"

definition isCont :: "int \<Rightarrow> bool" where
  "isCont b = (0x80 \<le> b \<and> b \<le> 0xBF)"

text \<open>
  The range accepted for the second byte of a sequence, by its first byte: the default is a
  continuation byte; \<open>E0\<close>, \<open>ED\<close>, \<open>F0\<close> and \<open>F4\<close> narrow it (no overlong forms, no
  surrogates, nothing above \<open>U+10FFFF\<close>).
\<close>

definition acceptLo :: "int \<Rightarrow> int" where
  "acceptLo b0 = (if b0 = 0xE0 then 0xA0 else if b0 = 0xF0 then 0x90 else 0x80)"

definition acceptHi :: "int \<Rightarrow> int" where
  "acceptHi b0 = (if b0 = 0xED then 0x9F else if b0 = 0xF4 then 0x8F else 0xBF)"

text \<open>
  \<open>utf8.DecodeRuneInString\<close>: the first rune of the string and its width in bytes;
  \<open>(RuneError, 0)\<close> for the empty string and \<open>(RuneError, 1)\<close> for an invalid encoding.
\<close>

definition DecodeRune :: "string \<Rightarrow> int \<times> nat" where
  "DecodeRune s =
     (case map byte s of
        [] \<Rightarrow> (RuneError, 0)
      | b0 # bs \<Rightarrow>
          if b0 < 0x80 then (b0, 1)
          else if 0xC2 \<le> b0 \<and> b0 \<le> 0xDF then
            (case bs of
               b1 # _ \<Rightarrow>
                 if isCont b1 then ((b0 mod 0x20) * 0x40 + b1 mod 0x40, 2) else (RuneError, 1)
             | _ \<Rightarrow> (RuneError, 1))
          else if 0xE0 \<le> b0 \<and> b0 \<le> 0xEF then
            (case bs of
               b1 # b2 # _ \<Rightarrow>
                 if acceptLo b0 \<le> b1 \<and> b1 \<le> acceptHi b0 \<and> isCont b2
                 then ((b0 mod 0x10) * 0x1000 + (b1 mod 0x40) * 0x40 + b2 mod 0x40, 3)
                 else (RuneError, 1)
             | _ \<Rightarrow> (RuneError, 1))
          else if 0xF0 \<le> b0 \<and> b0 \<le> 0xF4 then
            (case bs of
               b1 # b2 # b3 # _ \<Rightarrow>
                 if acceptLo b0 \<le> b1 \<and> b1 \<le> acceptHi b0 \<and> isCont b2 \<and> isCont b3
                 then ((b0 mod 0x08) * 0x40000 + (b1 mod 0x40) * 0x1000 + (b2 mod 0x40) * 0x40
                       + b3 mod 0x40, 4)
                 else (RuneError, 1)
             | _ \<Rightarrow> (RuneError, 1))
          else (RuneError, 1))"

text \<open>\<open>utf8.RuneStart\<close>: the byte is not a continuation byte.\<close>

definition RuneStart :: "int \<Rightarrow> bool" where
  "RuneStart b = (\<not> isCont b)"

text \<open>
  The loop of \<open>utf8.DecodeLastRuneInString\<close> that walks back from \<open>start\<close> to the nearest
  byte that can start a rune, no further than \<open>lim\<close>.
\<close>

function scanStart :: "string \<Rightarrow> int \<Rightarrow> int \<Rightarrow> int" where
  "scanStart s start lim =
     (if lim \<le> start
      then (if RuneStart (byte (s ! nat start)) then start else scanStart s (start - 1) lim)
      else start)"
  by pat_completeness auto
termination
  by (relation "measure (\<lambda>(s, start, lim). nat (start - lim + 1))") auto

text \<open>
  \<open>utf8.DecodeLastRuneInString\<close>: the last rune of the string and its width;
  \<open>(RuneError, 1)\<close> when no valid encoding ends at the end of the string.
\<close>

definition DecodeLastRune :: "string \<Rightarrow> int \<times> nat" where
  "DecodeLastRune s =
     (let end = length s
      in if end = 0 then (RuneError, 0)
         else if byte (s ! (end - 1)) < 0x80 then (byte (s ! (end - 1)), 1)
         else
           (let lim = int (end - 4);
                start = scanStart s (int end - 2) lim;
                start = (if start < 0 then 0 else start);
                (r, size) = DecodeRune (drop (nat start) s)
            in if nat start + size \<noteq> end then (RuneError, 1) else (r, size)))"

text \<open>
  \<open>utf8.AppendRune\<close>: the encoding of a rune; a surrogate or a value outside
  \<open>0\<close>..\<open>U+10FFFF\<close> is written as \<open>RuneError\<close>.
\<close>

definition EncodeRune :: "int \<Rightarrow> string" where
  "EncodeRune r =
     (if 0 \<le> r \<and> r \<le> 0x7F then [char_of r]
      else if 0 \<le> r \<and> r \<le> 0x7FF then [char_of (0xC0 + r div 0x40), char_of (0x80 + r mod 0x40)]
      else if r < 0 \<or> 0x10FFFF < r \<or> (0xD800 \<le> r \<and> r \<le> 0xDFFF) then [CHR 0xEF, CHR 0xBF, CHR 0xBD]
      else if r \<le> 0xFFFF then
        [char_of (0xE0 + r div 0x1000), char_of (0x80 + (r div 0x40) mod 0x40),
         char_of (0x80 + r mod 0x40)]
      else
        [char_of (0xF0 + r div 0x40000), char_of (0x80 + (r div 0x1000) mod 0x40),
         char_of (0x80 + (r div 0x40) mod 0x40), char_of (0x80 + r mod 0x40)])"

text \<open>
  The runes of a string as a \<open>range\<close> loop sees them: every invalid byte is one
  \<open>RuneError\<close>. After a rune of width \<open>size\<close> the loop goes on with \<open>s[size:]\<close>, which is
  the tail without its first \<open>size - 1\<close> bytes.
\<close>

fun runes :: "string \<Rightarrow> int list" where
  "runes [] = []"
| "runes (c # cs) = (let (r, size) = DecodeRune (c # cs) in r # runes (drop (size - 1) cs))"

subsection \<open>Package \<open>unicode\<close>\<close>

text \<open>
  \<open>unicode.IsSpace\<close>: in Latin-1 the characters \<open>\t \n \v \f \r\<close>, space, \<open>U+0085\<close> and
  \<open>U+00A0\<close>; above Latin-1 the characters with the property \<open>White_Space\<close>.
\<close>

definition IsSpace :: "int \<Rightarrow> bool" where
  "IsSpace r =
     (if 0 \<le> r \<and> r \<le> 0xFF
      then r = 0x09 \<or> r = 0x0A \<or> r = 0x0B \<or> r = 0x0C \<or> r = 0x0D \<or> r = 0x20 \<or> r = 0x85 \<or> r = 0xA0
      else r = 0x1680 \<or> (0x2000 \<le> r \<and> r \<le> 0x200A) \<or> r = 0x2028 \<or> r = 0x2029 \<or> r = 0x202F
           \<or> r = 0x205F \<or> r = 0x3000)"

text \<open>
  \<open>unicode.ToLower\<close>. Up to \<open>U+007F\<close> the function lowers the letters \<open>A\<close>..\<open>Z\<close> itself;
  above, it looks the rune up in the case table of the package (\<open>unicode.CaseRanges\<close>).
  That table is a constant of the Go release in use; it is the argument \<open>tbl\<close>, a function
  from a rune to its lower-case form, and every definition that reaches \<open>unicode.ToLower\<close>
  carries it.
\<close>

type_synonym caseTable = "int \<Rightarrow> int"

definition unicode_ToLower :: "caseTable \<Rightarrow> int \<Rightarrow> int" where
  "unicode_ToLower tbl r =
     (if r \<le> 0x7F then (if 0x41 \<le> r \<and> r \<le> 0x5A then r + 0x20 else r) else tbl r)"

text \<open>
  A fragment of the case table for worked examples: the capital letters of Latin-1
  (\<open>U+00C0\<close>..\<open>U+00DE\<close> without \<open>U+00D7\<close>) and \<open>U+0130\<close>, mapped as the package maps them.
  The examples use no other rune above ASCII that has a lower-case form.
\<close>

definition exampleTable :: caseTable where
  "exampleTable r =
     (if 0xC0 \<le> r \<and> r \<le> 0xDE \<and> r \<noteq> 0xD7 then r + 0x20
      else if r = 0x130 then 0x69
      else r)"

subsection \<open>Package \<open>strings\<close>\<close>

definition isASCII :: "char \<Rightarrow> bool" where
  "isASCII c = (byte c < 0x80)"

text \<open>The table \<open>asciiSpace\<close> of the package: the six ASCII white-space bytes.\<close>

definition asciiSpace :: "char \<Rightarrow> bool" where
  "asciiSpace c =
     (c = CHR 0x09 \<or> c = CHR 0x0A \<or> c = CHR 0x0B \<or> c = CHR 0x0C \<or> c = CHR 0x0D \<or> c = CHR '' '')"

text \<open>
  \<open>strings.TrimLeftFunc(s, unicode.IsSpace)\<close>: the string from its first rune that is not
  white space.
\<close>

fun TrimLeftFunc :: "string \<Rightarrow> string" where
  "TrimLeftFunc [] = []"
| "TrimLeftFunc (c # cs) =
     (let (r, size) = DecodeRune (c # cs)
      in if IsSpace r then TrimLeftFunc (drop (size - 1) cs) else c # cs)"

text \<open>
  \<open>lastIndexFunc\<close> of the package, for \<open>unicode.IsSpace\<close> and \<open>truth = false\<close>: the index
  at which the last rune that is not white space starts, decoding backwards, or \<open>-1\<close>. The
  argument is the prefix \<open>s[0:i]\<close> still to be searched, reversed.
\<close>

fun lastIndexFunc :: "string \<Rightarrow> int" where
  "lastIndexFunc [] = - 1"
| "lastIndexFunc (c # cs) =
     (let (r, size) = DecodeLastRune (rev (c # cs))
      in if \<not> IsSpace r then int (length (c # cs)) - int size
         else lastIndexFunc (drop (size - 1) cs))"

text \<open>\<open>strings.TrimRightFunc(s, unicode.IsSpace)\<close>.\<close>

definition TrimRightFunc :: "string \<Rightarrow> string" where
  "TrimRightFunc s =
     (let i = lastIndexFunc (rev s)
      in if 0 \<le> i \<and> 0x80 \<le> byte (s ! nat i)
         then take (nat i + snd (DecodeRune (drop (nat i) s))) s
         else take (nat (i + 1)) s)"

definition TrimFunc :: "string \<Rightarrow> string" where
  "TrimFunc s = TrimRightFunc (TrimLeftFunc s)"

text \<open>
  \<open>strings.TrimSpace\<close>. The first loop skips ASCII white space from the front and hands
  over to \<open>TrimFunc\<close> at a byte \<open>\<ge> 0x80\<close>; the second loop does the same from the back and
  hands over to \<open>TrimRightFunc\<close>.
\<close>

definition TrimSpace :: "string \<Rightarrow> string" where
  "TrimSpace s =
     (case dropWhile asciiSpace s of
        [] \<Rightarrow> []
      | c # cs \<Rightarrow>
          if 0x80 \<le> byte c then TrimFunc (c # cs)
          else
            (let t = rev (dropWhile asciiSpace (rev (c # cs)))
             in if 0x80 \<le> byte (last t) then TrimRightFunc t else t))"

text \<open>
  \<open>strings.ToLower\<close>. A string of ASCII bytes is lowered byte by byte; any other string
  goes through \<open>strings.Map(unicode.ToLower, s)\<close>, which decodes every rune (an invalid
  byte as \<open>RuneError\<close>), maps it and encodes the result, dropping a rune mapped to a
  negative value. \<open>bytes.ToLower\<close>, which the engine calls, does the same on a byte slice.
\<close>

definition toLowerByte :: "char \<Rightarrow> char" where
  "toLowerByte c =
     (if (65::nat) \<le> of_char c \<and> of_char c \<le> (90::nat) then char_of (of_char c + (32::nat)) else c)"

definition strings_Map :: "(int \<Rightarrow> int) \<Rightarrow> string \<Rightarrow> string" where
  "strings_Map mapping s =
     concat (map (\<lambda>c. let r = mapping c in if 0 \<le> r then EncodeRune r else []) (runes s))"

definition ToLower :: "caseTable \<Rightarrow> string \<Rightarrow> string" where
  "ToLower tbl s =
     (if list_all isASCII s then map toLowerByte s else strings_Map (unicode_ToLower tbl) s)"

subsection \<open>Package \<open>os\<close>\<close>

text \<open>
  \<open>os.Getenv\<close>: the process environment is a finite table of variables; a variable that is
  not set reads as the empty string.
\<close>

type_synonym environ = "string \<rightharpoonup> string"

definition Getenv :: "environ \<Rightarrow> string \<Rightarrow> string" where
  "Getenv e key = (case e key of None \<Rightarrow> [] | Some v \<Rightarrow> v)"

subsection \<open>The logging engine (go.uber.org/zap) as far as the package uses it\<close>

text \<open>
  The engine is a dependency of the package. The definitions of this subsection and of the
  one on writing a record follow the engine's own sources (zap 1.x: \<open>zapcore/level.go\<close>,
  \<open>config.go\<close>, \<open>logger.go\<close>, \<open>zapcore/entry.go\<close>, \<open>zapcore/json_encoder.go\<close>,
  \<open>internal/stacktrace\<close>) as far as the package depends on them.

  \<open>zapcore.Level\<close> is an \<open>int8\<close>; \<open>levelNum\<close> gives the number of each named level.
\<close>

datatype Level = DebugLevel | InfoLevel | WarnLevel | ErrorLevel | DPanicLevel | PanicLevel | FatalLevel

fun levelNum :: "Level \<Rightarrow> int" where
  "levelNum DebugLevel = -1"
| "levelNum InfoLevel = 0"
| "levelNum WarnLevel = 1"
| "levelNum ErrorLevel = 2"
| "levelNum DPanicLevel = 3"
| "levelNum PanicLevel = 4"
| "levelNum FatalLevel = 5"

text \<open>\<open>Level.Enabled\<close>: a level enabler lets through every level at or above itself.\<close>

definition Enabled :: "Level \<Rightarrow> Level \<Rightarrow> bool" where
  "Enabled l lvl = (levelNum l \<le> levelNum lvl)"

text \<open>
  Errors. \<open>Errno\<close> is \<open>syscall.Errno\<close>; \<open>UnrecognizedLevel text\<close> is the engine's
  \<open>"unrecognized level: %q"\<close>; \<open>InvalidLevel lvlStr err\<close> is the package's
  \<open>fmt.Errorf("invalid log level %q: %w", lvlStr, err)\<close>; \<open>Wrapped msg err\<close> is any other
  error that wraps one error (such as \<open>*fs.PathError\<close>); \<open>ErrorString\<close> is an error that
  wraps nothing. The message text of an error is not modelled beyond these arguments.
\<close>

datatype goerror =
    Errno nat
  | ErrorString string
  | UnrecognizedLevel string
  | InvalidLevel string goerror
  | Wrapped string goerror

text \<open>
  \<open>Level.UnmarshalText\<close> with its helper \<open>unmarshalText\<close>: a name is looked up as it is and,
  failing that, lowered. The empty text is accepted as \<open>info\<close>.
\<close>

definition unmarshalText :: "string \<Rightarrow> Level option" where
  "unmarshalText text =
     (if text = ''debug'' \<or> text = ''DEBUG'' then Some DebugLevel
      else if text = ''info'' \<or> text = ''INFO'' \<or> text = [] then Some InfoLevel
      else if text = ''warn'' \<or> text = ''WARN'' then Some WarnLevel
      else if text = ''error'' \<or> text = ''ERROR'' then Some ErrorLevel
      else if text = ''dpanic'' \<or> text = ''DPANIC'' then Some DPanicLevel
      else if text = ''panic'' \<or> text = ''PANIC'' then Some PanicLevel
      else if text = ''fatal'' \<or> text = ''FATAL'' then Some FatalLevel
      else None)"

definition UnmarshalText :: "caseTable \<Rightarrow> string \<Rightarrow> goerror + Level" where
  "UnmarshalText tbl text =
     (case unmarshalText text of
        Some l \<Rightarrow> Inr l
      | None \<Rightarrow>
          (case unmarshalText (ToLower tbl text) of
             Some l \<Rightarrow> Inr l
           | None \<Rightarrow> Inl (UnrecognizedLevel text)))"

text \<open>
  The encoder configuration. \<open>NewProductionEncoderConfig\<close> is the engine's preset; the
  package then overrides the time encoder and four keys.
\<close>

datatype TimeEncoder = EpochTimeEncoder | RFC3339TimeEncoder
datatype CallerEncoder = ShortCallerEncoder | FullCallerEncoder

record EncoderConfig =
  MessageKey :: string
  LevelKey :: string
  TimeKey :: string
  NameKey :: string
  CallerKey :: string
  StacktraceKey :: string
  EncodeTime :: TimeEncoder
  EncodeCaller :: CallerEncoder

definition NewProductionEncoderConfig :: EncoderConfig where
  "NewProductionEncoderConfig =
     \<lparr> MessageKey = ''msg'', LevelKey = ''level'', TimeKey = ''ts'', NameKey = ''logger'',
       CallerKey = ''caller'', StacktraceKey = ''stacktrace'', EncodeTime = EpochTimeEncoder,
       EncodeCaller = ShortCallerEncoder \<rparr>"

datatype Encoding = JSONEncoder
datatype Sink = Stdout

text \<open>
  A logger: the core (encoder, sink, minimum level), the two options the package sets
  (\<open>AddCaller\<close>, \<open>AddStacktrace\<close>) and the context fields attached with \<open>With\<close>, in the order in
  which they were attached.
\<close>

record Logger =
  encoding :: Encoding
  encoderConfig :: EncoderConfig
  sink :: Sink
  coreLevel :: Level
  addCaller :: bool
  addStack :: "Level option"
  ctxFields :: "(string \<times> string) list"

datatype Option = AddCaller | AddStacktrace Level

fun applyOption :: "Logger \<Rightarrow> Option \<Rightarrow> Logger" where
  "applyOption lg AddCaller = lg\<lparr>addCaller := True\<rparr>"
| "applyOption lg (AddStacktrace lvl) = lg\<lparr>addStack := Some lvl\<rparr>"

definition NewCore :: "Encoding \<Rightarrow> EncoderConfig \<Rightarrow> Sink \<Rightarrow> Level \<Rightarrow> Logger" where
  "NewCore enc cfg ws lvl =
     \<lparr> encoding = enc, encoderConfig = cfg, sink = ws, coreLevel = lvl,
       addCaller = False, addStack = None, ctxFields = [] \<rparr>"

definition zap_New :: "Logger \<Rightarrow> Option list \<Rightarrow> Logger" where
  "zap_New core opts = foldl applyOption core opts"

text \<open>
  \<open>Sugar\<close> wraps the logger in the sugared interface; the wrapped logger is the same.
  \<open>With\<close> returns a copy of the logger with the given fields appended.
\<close>

definition Sugar :: "Logger \<Rightarrow> Logger" where
  "Sugar z = z"

definition With :: "Logger \<Rightarrow> (string \<times> string) list \<Rightarrow> Logger" where
  "With lg kvs = lg\<lparr>ctxFields := ctxFields lg @ kvs\<rparr>"

subsection \<open>The package\<close>

text \<open>
  The package variables \<open>Log\<close>, \<open>serviceName\<close> and \<open>envName\<close>, and with them the engine's
  own global logger, which \<open>Init\<close> replaces through \<open>zap.ReplaceGlobals\<close>.
\<close>

record state =
  Log :: "Logger option"
  serviceName :: string
  envName :: string
  zapGlobal :: "Logger option"

text \<open>The package-level variables before any call: \<open>Log\<close> is nil, the strings are empty.\<close>

definition initial :: state where
  "initial = \<lparr> Log = None, serviceName = [], envName = [], zapGlobal = None \<rparr>"

definition defaultLevel :: string where "defaultLevel = ''info''"
definition defaultService :: string where "defaultService = ''unknown-service''"
definition defaultEnv :: string where "defaultEnv = ''dev''"

text \<open>
  \<open>Init\<close>. The result is the returned error (\<open>None\<close> for nil) and the package variables
  after the call. The first argument is the case table behind \<open>strings.ToLower\<close>, the
  second the process environment read by \<open>os.Getenv\<close>.
\<close>

definition Init :: "caseTable \<Rightarrow> environ \<Rightarrow> string \<Rightarrow> string \<Rightarrow> string \<Rightarrow> state \<Rightarrow> goerror option \<times> state" where
  "Init tbl environ level service env st =
     (let lvlStr = TrimSpace level;
          lvlStr = (if lvlStr = [] then TrimSpace (Getenv environ ''LOG_LEVEL'') else lvlStr);
          lvlStr = (if lvlStr = [] then defaultLevel else lvlStr)
      in case UnmarshalText tbl (ToLower tbl lvlStr) of
           Inl err \<Rightarrow> (Some (InvalidLevel lvlStr err), st)
         | Inr zapLevel \<Rightarrow>
             (let service = (if TrimSpace service = [] then defaultService else service);
                  env = (if TrimSpace env = [] then defaultEnv else env);
                  st = st\<lparr>serviceName := service, envName := env\<rparr>;
                  encCfg = NewProductionEncoderConfig\<lparr>EncodeTime := RFC3339TimeEncoder\<rparr>;
                  encCfg = encCfg\<lparr>TimeKey := ''ts''\<rparr>;
                  encCfg = encCfg\<lparr>MessageKey := ''msg''\<rparr>;
                  encCfg = encCfg\<lparr>CallerKey := ''caller''\<rparr>;
                  encCfg = encCfg\<lparr>LevelKey := ''level''\<rparr>;
                  core = NewCore JSONEncoder encCfg Stdout zapLevel;
                  z = zap_New core [AddCaller, AddStacktrace ErrorLevel];
                  l = With (Sugar z) [(''service'', serviceName st), (''env'', envName st)]
              in (None, st\<lparr>Log := Some l, zapGlobal := Some z\<rparr>)))"

text \<open>
  \<open>ensureDefaultInit\<close> discards the error of its call of \<open>Init\<close> and keeps whatever
  package variables that call left.
\<close>

definition ensureDefaultInit :: "caseTable \<Rightarrow> environ \<Rightarrow> state \<Rightarrow> state" where
  "ensureDefaultInit tbl environ st =
     (if Log st \<noteq> None then st
      else snd (Init tbl environ defaultLevel defaultService defaultEnv st))"

text \<open>
  \<open>New\<close>. \<open>Log.With\<close> on a nil \<open>Log\<close> would dereference a nil pointer; the model returns
  that panic as a value.
\<close>

datatype panic = NilPointerDereference

definition New :: "caseTable \<Rightarrow> environ \<Rightarrow> string \<Rightarrow> state \<Rightarrow> (panic + Logger) \<times> state" where
  "New tbl environ module st =
     (let st = ensureDefaultInit tbl environ st
      in case Log st of
           None \<Rightarrow> (Inl NilPointerDereference, st)
         | Some l \<Rightarrow> (Inr (With l [(''module'', module)]), st))"

text \<open>
  \<open>errors.Is(err, target)\<close> for a target that is a \<open>syscall.Errno\<close>: the chain of wrapped
  errors is followed until an \<open>Errno\<close> equal to the target is found. \<open>EPIPE\<close> is errno 32.
\<close>

definition EPIPE :: nat where
  "EPIPE = 32"

fun errors_Is :: "goerror \<Rightarrow> nat \<Rightarrow> bool" where
  "errors_Is (Errno n) target = (n = target)"
| "errors_Is (ErrorString m) target = False"
| "errors_Is (UnrecognizedLevel t) target = False"
| "errors_Is (InvalidLevel s err) target = errors_Is err target"
| "errors_Is (Wrapped m err) target = errors_Is err target"

text \<open>
  \<open>Sync\<close>. The outcome of the engine's own \<open>Log.Sync()\<close> depends on the sink at the time of
  the call; it is the argument \<open>flush\<close>. \<open>Sync\<close> assigns no package variable, so only the
  returned error is modelled.
\<close>

definition Sync :: "(Logger \<Rightarrow> goerror option) \<Rightarrow> state \<Rightarrow> goerror option" where
  "Sync flush st =
     (case Log st of
        None \<Rightarrow> None
      | Some l \<Rightarrow>
          (case flush l of
             None \<Rightarrow> None
           | Some err \<Rightarrow> if errors_Is err EPIPE then None else Some err))"

subsection \<open>Writing a record (the engine's \<open>Logger.check\<close> and JSON encoder)\<close>

text \<open>
  A frame of the call stack at the logging call, as the runtime reports it. The stack is an
  argument of the model, innermost frame first; its last frame is the runtime's own
  (\<open>runtime.main\<close> or \<open>runtime.goexit\<close>).
\<close>

record Frame =
  framePC :: nat
  frameFunction :: string
  frameFile :: string
  frameLine :: nat

record EntryCaller =
  Defined :: bool
  callerFile :: string
  callerLine :: nat

record Entry =
  entLevel :: Level
  entMessage :: string
  entCaller :: EntryCaller
  entStack :: string

text \<open>\<open>AppendInt\<close> for a number that is not negative: its decimal digits.\<close>

function AppendInt :: "nat \<Rightarrow> string" where
  "AppendInt n = (if n < 10 then [char_of (48 + n)] else AppendInt (n div 10) @ [char_of (48 + n mod 10)])"
  by pat_completeness auto
termination
  by (relation "measure id") auto

text \<open>
  The stack formatter: \<open>FormatFrame\<close> writes a frame as the function name, a line break, a
  tab and \<open>file:line\<close>, with a line break before every frame but the first.
\<close>

definition formatFrame :: "Frame \<Rightarrow> string" where
  "formatFrame f = frameFunction f @ [CHR 0x0A, CHR 0x09] @ frameFile f @ '':'' @ AppendInt (frameLine f)"

fun formatFrames :: "Frame list \<Rightarrow> string" where
  "formatFrames [] = []"
| "formatFrames [f] = formatFrame f"
| "formatFrames (f # g # fs) = formatFrame f @ [CHR 0x0A] @ formatFrames (g # fs)"

text \<open>
  \<open>check\<close>: no entry when the core's level does not let the record through; otherwise the
  entry is annotated with the caller (option \<open>AddCaller\<close>) taken from the first frame, and
  with the formatted stack when the \<open>AddStacktrace\<close> level lets the record's level through:
  the first frame and then every further frame but the last. Without a captured frame the
  entry is written without either.
\<close>

definition check :: "Logger \<Rightarrow> Level \<Rightarrow> string \<Rightarrow> Frame list \<Rightarrow> Entry option" where
  "check lg lvl msg frames =
     (if \<not> Enabled (coreLevel lg) lvl then None
      else
        (let ce = \<lparr> entLevel = lvl, entMessage = msg,
                    entCaller = \<lparr> Defined = False, callerFile = [], callerLine = 0 \<rparr>,
                    entStack = [] \<rparr>;
             addStk = (case addStack lg of None \<Rightarrow> False | Some l \<Rightarrow> Enabled l lvl)
         in if \<not> addCaller lg \<and> \<not> addStk then Some ce
            else
              (case frames of
                 [] \<Rightarrow> Some ce
               | frame # rest \<Rightarrow>
                   (let ce = (if addCaller lg
                              then ce\<lparr>entCaller := \<lparr> Defined = (framePC frame \<noteq> 0),
                                     callerFile = frameFile frame, callerLine = frameLine frame \<rparr>\<rparr>
                              else ce);
                        ce = (if addStk then ce\<lparr>entStack := formatFrames (frame # butlast rest)\<rparr> else ce)
                    in Some ce))))"

fun levelString :: "Level \<Rightarrow> string" where
  "levelString DebugLevel = ''debug''"
| "levelString InfoLevel = ''info''"
| "levelString WarnLevel = ''warn''"
| "levelString ErrorLevel = ''error''"
| "levelString DPanicLevel = ''dpanic''"
| "levelString PanicLevel = ''panic''"
| "levelString FatalLevel = ''fatal''"

text \<open>
  The caller encoders. \<open>FullPath\<close> is \<open>file:line\<close>; \<open>TrimmedPath\<close> keeps the file name from
  its last but one \<open>/\<close> on, and falls back to the full path when the file name has fewer
  than two. \<open>LastIndexByte\<close> is the index of the last occurrence of a byte, or \<open>-1\<close>.
\<close>

definition LastIndexByte :: "string \<Rightarrow> char \<Rightarrow> int" where
  "LastIndexByte s c =
     (if c \<in> set s then int (length s) - 1 - int (length (takeWhile (\<lambda>x. x \<noteq> c) (rev s))) else - 1)"

definition FullPath :: "EntryCaller \<Rightarrow> string" where
  "FullPath ec =
     (if \<not> Defined ec then ''undefined'' else callerFile ec @ '':'' @ AppendInt (callerLine ec))"

definition TrimmedPath :: "EntryCaller \<Rightarrow> string" where
  "TrimmedPath ec =
     (if \<not> Defined ec then ''undefined''
      else
        (let idx = LastIndexByte (callerFile ec) CHR ''/''
         in if idx = - 1 then FullPath ec
            else
              (let idx = LastIndexByte (take (nat idx) (callerFile ec)) CHR ''/''
               in if idx = - 1 then FullPath ec
                  else drop (nat (idx + 1)) (callerFile ec) @ '':'' @ AppendInt (callerLine ec))))"

fun encodeCaller :: "CallerEncoder \<Rightarrow> EntryCaller \<Rightarrow> string" where
  "encodeCaller ShortCallerEncoder ec = TrimmedPath ec"
| "encodeCaller FullCallerEncoder ec = FullPath ec"

text \<open>
  The JSON encoder writes the record as a sequence of key/value members: level, time, caller
  (when the entry's caller is defined), message, the context fields of the logger, and the
  stack trace when the entry's stack is not empty; a member whose key is configured empty
  is left out. The level is written in lower case (the preset's level encoder). \<open>now\<close> is the time of the record as the
  configured time encoder renders it. A member's value is the string before JSON escaping.
\<close>

definition EncodeEntry :: "EncoderConfig \<Rightarrow> (string \<times> string) list \<Rightarrow> string \<Rightarrow> Entry \<Rightarrow> (string \<times> string) list" where
  "EncodeEntry cfg ctx now ent =
     (if LevelKey cfg \<noteq> [] then [(LevelKey cfg, levelString (entLevel ent))] else [])
     @ (if TimeKey cfg \<noteq> [] then [(TimeKey cfg, now)] else [])
     @ (if Defined (entCaller ent) \<and> CallerKey cfg \<noteq> []
        then [(CallerKey cfg, encodeCaller (EncodeCaller cfg) (entCaller ent))] else [])
     @ (if MessageKey cfg \<noteq> [] then [(MessageKey cfg, entMessage ent)] else [])
     @ ctx
     @ (if entStack ent \<noteq> [] \<and> StacktraceKey cfg \<noteq> [] then [(StacktraceKey cfg, entStack ent)] else [])"

definition Write :: "Logger \<Rightarrow> Level \<Rightarrow> string \<Rightarrow> string \<Rightarrow> Frame list \<Rightarrow> (string \<times> string) list option" where
  "Write lg lvl msg now frames =
     map_option (EncodeEntry (encoderConfig lg) (ctxFields lg) now) (check lg lvl msg frames)"

subsection \<open>Sequences of calls\<close>

datatype call =
    CallInit environ string string string
  | CallNew environ string
  | CallSync "Logger \<Rightarrow> goerror option"

fun exec :: "caseTable \<Rightarrow> state \<Rightarrow> call \<Rightarrow> state" where
  "exec tbl st (CallInit environ level service env) = snd (Init tbl environ level service env st)"
| "exec tbl st (CallNew environ module) = snd (New tbl environ module st)"
| "exec tbl st (CallSync flush) = st"

definition run :: "caseTable \<Rightarrow> call list \<Rightarrow> state" where
  "run tbl cs = foldl (exec tbl) initial cs"

text \<open>The environment in which no variable is set.\<close>

definition noEnviron :: environ where
  "noEnviron = Map.empty"

subsection \<open>The specification's notions\<close>

text \<open>
  The level string an initialization resolves: the trimmed argument if it is not empty,
  otherwise the trimmed value of \<open>LOG_LEVEL\<close> if that is not empty, otherwise \<open>info\<close>.
\<close>

definition resolvedLevel :: "environ \<Rightarrow> string \<Rightarrow> string" where
  "resolvedLevel environ level =
     (if TrimSpace level \<noteq> [] then TrimSpace level
      else if TrimSpace (Getenv environ ''LOG_LEVEL'') \<noteq> [] then TrimSpace (Getenv environ ''LOG_LEVEL'')
      else ''info'')"

text \<open>
  What the two ASCII loops of \<open>strings.TrimSpace\<close> compute on a string of ASCII bytes, where
  the Unicode path is never entered.
\<close>

definition trimASCII :: "string \<Rightarrow> string" where
  "trimASCII s = rev (dropWhile asciiSpace (rev (dropWhile asciiSpace s)))"

text \<open>
  The lower-cased resolved level as a function of the lower-cased \<open>level\<close> argument and
  the lower-cased \<open>LOG_LEVEL\<close>, for ASCII input.
\<close>

definition loweredLevel :: "string \<Rightarrow> string \<Rightarrow> string" where
  "loweredLevel lowLevel lowEnv =
     (if trimASCII lowLevel \<noteq> [] then trimASCII lowLevel
      else if trimASCII lowEnv \<noteq> [] then trimASCII lowEnv
      else ''info'')"

text \<open>The severity names, in lower case.\<close>

definition severityNames :: "string list" where
  "severityNames = [''debug'', ''info'', ''warn'', ''error'', ''dpanic'', ''panic'', ''fatal'']"

text \<open>
  The identity an initialization resolves from an argument: the default when the argument
  is blank, otherwise the argument as it was passed.
\<close>

definition resolvedName :: "string \<Rightarrow> string \<Rightarrow> string" where
  "resolvedName dflt arg = (if TrimSpace arg = [] then dflt else arg)"

text \<open>
  The logger of the fixed conventions at a given minimum level, before any field is
  attached: JSON to standard output, RFC3339 time, the keys \<open>ts\<close>, \<open>msg\<close>, \<open>caller\<close>,
  \<open>level\<close>, caller capture, stack traces from \<open>error\<close>.
\<close>

definition conventionLogger :: "Level \<Rightarrow> Logger" where
  "conventionLogger lvl =
     \<lparr> encoding = JSONEncoder,
       encoderConfig =
         \<lparr> MessageKey = ''msg'', LevelKey = ''level'', TimeKey = ''ts'', NameKey = ''logger'',
           CallerKey = ''caller'', StacktraceKey = ''stacktrace'', EncodeTime = RFC3339TimeEncoder,
           EncodeCaller = ShortCallerEncoder \<rparr>,
       sink = Stdout, coreLevel = lvl, addCaller = True, addStack = Some ErrorLevel,
       ctxFields = [] \<rparr>"

text \<open>
  The identity resolved by the most recent initialization that succeeded, along a sequence
  of calls; the lazy initialization of \<open>New\<close> passes the defaults and happens when nothing
  has been initialized before.
\<close>

fun resolvedStep :: "caseTable \<Rightarrow> (string \<times> string) option \<Rightarrow> call \<Rightarrow> (string \<times> string) option" where
  "resolvedStep tbl cur (CallInit environ level service env) =
     (case UnmarshalText tbl (ToLower tbl (resolvedLevel environ level)) of
        Inl err \<Rightarrow> cur
      | Inr lvl \<Rightarrow> Some (resolvedName ''unknown-service'' service, resolvedName ''dev'' env))"
| "resolvedStep tbl cur (CallNew environ module) =
     (case cur of None \<Rightarrow> Some (''unknown-service'', ''dev'') | Some i \<Rightarrow> Some i)"
| "resolvedStep tbl cur (CallSync flush) = cur"

definition lastResolved :: "caseTable \<Rightarrow> call list \<Rightarrow> (string \<times> string) option" where
  "lastResolved tbl cs = foldl (resolvedStep tbl) None cs"

text \<open>The global logger carries exactly the two fields with the given identity.\<close>

definition carries :: "Logger option \<Rightarrow> (string \<times> string) option \<Rightarrow> bool" where
  "carries lg ident =
     (case lg of
        None \<Rightarrow> True
      | Some l \<Rightarrow>
          (case ident of
             None \<Rightarrow> False
           | Some (s, e) \<Rightarrow> ctxFields l = [(''service'', s), (''env'', e)]))"

text \<open>
  The invariant of the package variables along a sequence of calls: \<open>Log\<close> carries the
  tracked identity, and is nil exactly as long as there is none.
\<close>

definition tracked :: "state \<Rightarrow> (string \<times> string) option \<Rightarrow> bool" where
  "tracked st ident \<longleftrightarrow> carries (Log st) ident \<and> (Log st = None \<longleftrightarrow> ident = None)"

section \<open>Properties\<close>

subsection \<open>Bytes and strings\<close>

lemma of_char_toLowerByte:
  "(of_char (toLowerByte c) :: nat) =
     (if 65 \<le> (of_char c :: nat) \<and> (of_char c :: nat) \<le> 90 then of_char c + 32 else of_char c)"
  by (simp add: toLowerByte_def)

lemma char_eq_nat: "c = d \<longleftrightarrow> (of_char c :: nat) = of_char d"
  by (simp add: of_char_eq_iff)

lemma isASCII_nat: "isASCII c \<longleftrightarrow> (of_char c :: nat) < 128"
proof -
  have "byte c = int (of_char c)"
    by (rule of_nat_of_char [symmetric])
  then show ?thesis unfolding isASCII_def by simp
qed

lemma asciiSpace_nat:
  "asciiSpace c \<longleftrightarrow> (of_char c :: nat) \<in> {9, 10, 11, 12, 13, 32}"
  unfolding asciiSpace_def
  by (simp add: char_eq_nat [of c])

lemma asciiSpace_isASCII: "asciiSpace c \<Longrightarrow> isASCII c"
  by (auto simp add: asciiSpace_nat isASCII_nat)

lemma asciiSpace_toLowerByte: "asciiSpace (toLowerByte c) = asciiSpace c"
  by (simp add: asciiSpace_nat of_char_toLowerByte)

lemma isASCII_toLowerByte: "isASCII (toLowerByte c) = isASCII c"
  by (simp add: isASCII_nat of_char_toLowerByte)

lemma toLowerByte_idem: "toLowerByte (toLowerByte c) = toLowerByte c"
  by (simp add: char_eq_nat [of "toLowerByte (toLowerByte c)"] of_char_toLowerByte)

lemma toLowerByte_not_upper:
  "\<not> (65 \<le> (of_char (toLowerByte c) :: nat) \<and> (of_char (toLowerByte c) :: nat) \<le> 90)"
  by (simp add: of_char_toLowerByte)

lemma lowered_Cons_not_upper:
  "65 \<le> (of_char d :: nat) \<Longrightarrow> (of_char d :: nat) \<le> 90 \<Longrightarrow> map toLowerByte s \<noteq> d # ds"
proof
  assume d: "65 \<le> (of_char d :: nat)" "(of_char d :: nat) \<le> 90" and eq: "map toLowerByte s = d # ds"
  then obtain c cs where "s = c # cs" by (cases s) auto
  with eq have "toLowerByte c = d" by simp
  with d toLowerByte_not_upper [of c] show False by simp
qed

lemma isASCII_lowered: "list_all isASCII (map toLowerByte s) = list_all isASCII s"
  by (induction s) (simp_all add: isASCII_toLowerByte)

lemma trimASCII_lowered: "map toLowerByte (trimASCII s) = trimASCII (map toLowerByte s)"
proof -
  have comp: "asciiSpace \<circ> toLowerByte = asciiSpace"
    by (rule ext) (simp add: asciiSpace_toLowerByte)
  show ?thesis
    by (simp add: trimASCII_def rev_map dropWhile_map comp)
qed

lemma isASCII_trimASCII: "list_all isASCII s \<Longrightarrow> list_all isASCII (trimASCII s)"
proof -
  assume a: "list_all isASCII s"
  have "set (trimASCII s) \<subseteq> set s"
    unfolding trimASCII_def by (auto dest!: set_dropWhileD)
  with a show ?thesis by (auto simp add: list_all_iff)
qed

lemma TrimSpace_ASCII:
  assumes "list_all isASCII s"
  shows "TrimSpace s = trimASCII s"
proof (cases "dropWhile asciiSpace s")
  case Nil
  show ?thesis unfolding TrimSpace_def trimASCII_def Nil by simp
next
  case (Cons c cs)
  let ?t = "rev (dropWhile asciiSpace (rev (c # cs)))"
  have sub: "set (c # cs) \<subseteq> set s"
    using Cons set_dropWhileD [of _ asciiSpace s] by (metis subsetI)
  have c: "\<not> asciiSpace c"
    using Cons hd_dropWhile [of asciiSpace s] by simp
  then have ne: "dropWhile asciiSpace (rev (c # cs)) \<noteq> []"
    by (simp add: dropWhile_eq_Nil_conv)
  then have "?t \<noteq> []" by (simp only: rev_is_Nil_conv not_False_eq_True)
  then have "last ?t \<in> set ?t" by (rule last_in_set)
  also have "set ?t \<subseteq> set (c # cs)"
    by (auto dest!: set_dropWhileD)
  finally have "last ?t \<in> set s" using sub by blast
  with assms have l: "isASCII (last ?t)" by (simp add: list_all_iff)
  from sub assms have h: "isASCII c" by (simp add: list_all_iff)
  from l h show ?thesis
    unfolding TrimSpace_def trimASCII_def Cons by (simp add: isASCII_def)
qed

lemma ToLower_ASCII: "list_all isASCII s \<Longrightarrow> ToLower tbl s = map toLowerByte s"
  by (simp add: ToLower_def)

lemma trimASCII_pad:
  assumes "list_all asciiSpace ws" and "list_all asciiSpace ws'"
  shows "trimASCII (ws @ s @ ws') = trimASCII s"
proof -
  have l: "dropWhile asciiSpace (ws @ s @ ws') = dropWhile asciiSpace (s @ ws')"
    using assms(1) by (simp add: dropWhile_append2 list_all_iff)
  show ?thesis
  proof (cases "dropWhile asciiSpace s = []")
    case True
    then have "\<forall>x\<in>set (s @ ws'). asciiSpace x"
      using assms(2) by (auto simp add: dropWhile_eq_Nil_conv list_all_iff)
    then have e: "dropWhile asciiSpace (s @ ws') = []"
      by (simp only: dropWhile_eq_Nil_conv)
    show ?thesis unfolding trimASCII_def l e True by simp
  next
    case False
    then obtain x where x: "x \<in> set s" "\<not> asciiSpace x"
      by (auto simp add: dropWhile_eq_Nil_conv)
    then have "dropWhile asciiSpace (s @ ws') = dropWhile asciiSpace s @ ws'"
      by (simp add: dropWhile_append1)
    moreover have "dropWhile asciiSpace (rev ws' @ rev (dropWhile asciiSpace s)) =
        dropWhile asciiSpace (rev (dropWhile asciiSpace s))"
      by (rule dropWhile_append2) (use assms(2) in \<open>simp add: list_all_iff\<close>)
    ultimately show ?thesis using l by (simp add: trimASCII_def)
  qed
qed

lemma TrimSpace_pad:
  assumes "list_all asciiSpace ws" and "list_all asciiSpace ws'" and "list_all isASCII s"
  shows "TrimSpace (ws @ s @ ws') = TrimSpace s"
proof -
  have "list_all isASCII (ws @ s @ ws')"
    using assms by (auto simp add: list_all_iff asciiSpace_isASCII)
  then show ?thesis
    by (simp add: TrimSpace_ASCII assms trimASCII_pad)
qed

subsection \<open>Parsing a level\<close>

lemma unmarshalText_lower:
  "unmarshalText ''debug'' = Some DebugLevel"
  "unmarshalText ''info'' = Some InfoLevel"
  "unmarshalText ''warn'' = Some WarnLevel"
  "unmarshalText ''error'' = Some ErrorLevel"
  "unmarshalText ''dpanic'' = Some DPanicLevel"
  "unmarshalText ''panic'' = Some PanicLevel"
  "unmarshalText ''fatal'' = Some FatalLevel"
  by (simp_all add: unmarshalText_def)

lemma unmarshalText_levelString: "unmarshalText (levelString lvl) = Some lvl"
  by (cases lvl) (simp_all add: unmarshalText_lower)

lemma severityNames_levelString: "n \<in> set severityNames \<longleftrightarrow> (\<exists>lvl. n = levelString lvl)"
proof
  assume "n \<in> set severityNames"
  then consider "n = levelString DebugLevel" | "n = levelString InfoLevel" | "n = levelString WarnLevel"
    | "n = levelString ErrorLevel" | "n = levelString DPanicLevel" | "n = levelString PanicLevel"
    | "n = levelString FatalLevel"
    unfolding severityNames_def by fastforce
  then show "\<exists>lvl. n = levelString lvl" by cases blast+
next
  assume "\<exists>lvl. n = levelString lvl"
  then obtain lvl where "n = levelString lvl" ..
  then show "n \<in> set severityNames"
    by (cases lvl) (simp_all add: severityNames_def)
qed

lemma isASCII_levelString: "list_all isASCII (levelString lvl)"
  by (cases lvl) (simp_all add: isASCII_nat)

lemma trimASCII_levelString: "trimASCII (levelString lvl) = levelString lvl"
  by (cases lvl) (simp_all add: trimASCII_def asciiSpace_def)

lemma unmarshalText_lowered:
  "unmarshalText (map toLowerByte s) \<noteq> None \<longleftrightarrow> map toLowerByte s \<in> set severityNames \<or> s = []"
  by (auto simp add: unmarshalText_def severityNames_def lowered_Cons_not_upper)

lemma UnmarshalText_error: "UnmarshalText tbl text = Inl err \<Longrightarrow> err = UnrecognizedLevel text"
  by (auto simp add: UnmarshalText_def split: option.splits)

lemma UnmarshalText_lowered:
  assumes "list_all isASCII s" and "s \<noteq> []"
  shows "UnmarshalText tbl (map toLowerByte s) =
     (if map toLowerByte s \<in> set severityNames
      then Inr (the (unmarshalText (map toLowerByte s)))
      else Inl (UnrecognizedLevel (map toLowerByte s)))"
proof -
  have "ToLower tbl (map toLowerByte s) = map toLowerByte s"
    using assms(1) by (simp add: ToLower_ASCII isASCII_lowered toLowerByte_idem)
  with unmarshalText_lowered [of s] assms(2) show ?thesis
    by (auto simp add: UnmarshalText_def split: option.splits)
qed

subsection \<open>What \<open>Init\<close> computes\<close>

lemma Init_unfold:
  "Init tbl environ level service env st =
     (case UnmarshalText tbl (ToLower tbl (resolvedLevel environ level)) of
        Inl err \<Rightarrow> (Some (InvalidLevel (resolvedLevel environ level) err), st)
      | Inr lvl \<Rightarrow>
          (None,
           st\<lparr> serviceName := resolvedName ''unknown-service'' service,
               envName := resolvedName ''dev'' env,
               Log := Some ((conventionLogger lvl)\<lparr>ctxFields :=
                        [(''service'', resolvedName ''unknown-service'' service),
                         (''env'', resolvedName ''dev'' env)]\<rparr>),
               zapGlobal := Some (conventionLogger lvl) \<rparr>))"
  by (simp add: Init_def resolvedLevel_def resolvedName_def conventionLogger_def Let_def
      defaultLevel_def defaultService_def defaultEnv_def NewProductionEncoderConfig_def
      NewCore_def zap_New_def Sugar_def With_def split: sum.splits)

lemma resolvedLevel_not_Nil: "resolvedLevel environ level \<noteq> []"
  by (simp add: resolvedLevel_def)

lemma Init_fails:
  "fst (Init tbl environ level service env st) \<noteq> None \<longleftrightarrow>
     (\<exists>err. UnmarshalText tbl (ToLower tbl (resolvedLevel environ level)) = Inl err)"
  by (simp add: Init_unfold split: sum.splits)

lemma Init_succeeds:
  "fst (Init tbl environ level service env st) = None \<longleftrightarrow>
     (\<exists>lvl. UnmarshalText tbl (ToLower tbl (resolvedLevel environ level)) = Inr lvl)"
  by (simp add: Init_unfold split: sum.splits)

lemma Init_state_ok:
  "UnmarshalText tbl (ToLower tbl (resolvedLevel environ level)) = Inr lvl \<Longrightarrow>
     snd (Init tbl environ level service env st) =
       st\<lparr> serviceName := resolvedName ''unknown-service'' service,
           envName := resolvedName ''dev'' env,
           Log := Some ((conventionLogger lvl)\<lparr>ctxFields :=
                    [(''service'', resolvedName ''unknown-service'' service),
                     (''env'', resolvedName ''dev'' env)]\<rparr>),
           zapGlobal := Some (conventionLogger lvl) \<rparr>"
  by (simp add: Init_unfold)

lemma Init_state_fail:
  "UnmarshalText tbl (ToLower tbl (resolvedLevel environ level)) = Inl err \<Longrightarrow>
     snd (Init tbl environ level service env st) = st"
  by (simp add: Init_unfold)

lemma Init_same_parse:
  assumes "ToLower tbl (resolvedLevel environ' level') = ToLower tbl (resolvedLevel environ level)"
  shows "(fst (Init tbl environ' level' service env st) = None \<longleftrightarrow>
            fst (Init tbl environ level service env st) = None)
     \<and> map_option coreLevel (Log (snd (Init tbl environ' level' service env st))) =
         map_option coreLevel (Log (snd (Init tbl environ level service env st)))"
  by (simp add: Init_unfold assms conventionLogger_def split: sum.splits)

lemma Init_same_level:
  assumes "TrimSpace level' = TrimSpace level"
  shows "Init tbl environ level' service env st = Init tbl environ level service env st"
proof -
  have r: "resolvedLevel environ level' = resolvedLevel environ level"
    by (simp add: resolvedLevel_def assms)
  show ?thesis by (simp only: Init_unfold r)
qed

text \<open>On ASCII input the lower-cased resolved level is a function of the lower-cased inputs.\<close>

lemma lowered_trimmed:
  assumes "list_all isASCII s"
  shows "ToLower tbl (TrimSpace s) = trimASCII (map toLowerByte s)"
    and "TrimSpace s = [] \<longleftrightarrow> trimASCII (map toLowerByte s) = []"
proof -
  have t: "TrimSpace s = trimASCII s"
    using assms by (rule TrimSpace_ASCII)
  have a: "list_all isASCII (trimASCII s)"
    using assms by (rule isASCII_trimASCII)
  show "ToLower tbl (TrimSpace s) = trimASCII (map toLowerByte s)"
    by (simp add: t ToLower_ASCII a trimASCII_lowered)
  have "trimASCII s = [] \<longleftrightarrow> map toLowerByte (trimASCII s) = []" by simp
  then show "TrimSpace s = [] \<longleftrightarrow> trimASCII (map toLowerByte s) = []"
    by (simp only: t trimASCII_lowered)
qed

lemma ToLower_info: "ToLower tbl ''info'' = ''info''"
proof -
  have a: "list_all isASCII ''info''" by (simp add: isASCII_nat)
  have "map toLowerByte ''info'' = ''info''"
    by (simp add: of_char_toLowerByte char_eq_nat [of "toLowerByte _"])
  with a show ?thesis by (simp only: ToLower_ASCII)
qed

lemma resolvedLevel_lowered:
  assumes "list_all isASCII level" and "list_all isASCII (Getenv environ ''LOG_LEVEL'')"
  shows "ToLower tbl (resolvedLevel environ level) =
     loweredLevel (map toLowerByte level) (map toLowerByte (Getenv environ ''LOG_LEVEL''))"
  using lowered_trimmed(1) [OF assms(1), of tbl] lowered_trimmed(2) [OF assms(1)]
    lowered_trimmed(1) [OF assms(2), of tbl] lowered_trimmed(2) [OF assms(2)]
  by (simp add: resolvedLevel_def loweredLevel_def ToLower_info)

subsection \<open>\<open>New\<close> and \<open>Sync\<close>\<close>

lemma TrimSpace_info: "TrimSpace ''info'' = ''info''"
proof -
  have "list_all isASCII ''info''" by (simp add: isASCII_nat)
  then have "TrimSpace ''info'' = trimASCII ''info''" by (rule TrimSpace_ASCII)
  then show ?thesis by (simp add: trimASCII_def asciiSpace_def)
qed

lemma default_level_parses:
  "UnmarshalText tbl (ToLower tbl (resolvedLevel environ defaultLevel)) = Inr InfoLevel"
proof -
  have "resolvedLevel environ ''info'' = ''info''"
    by (simp add: resolvedLevel_def TrimSpace_info)
  then show ?thesis
    by (simp add: defaultLevel_def ToLower_info UnmarshalText_def unmarshalText_lower)
qed

lemma default_Init_succeeds:
  "fst (Init tbl environ defaultLevel defaultService defaultEnv st) = None"
  by (simp add: Init_succeeds default_level_parses)

lemma ensureDefaultInit_Log: "Log (ensureDefaultInit tbl environ st) \<noteq> None"
  by (simp add: ensureDefaultInit_def Init_state_ok [OF default_level_parses])

lemma New_unfold:
  "New tbl environ module st =
     (Inr (With (the (Log (ensureDefaultInit tbl environ st))) [(''module'', module)]),
      ensureDefaultInit tbl environ st)"
  using ensureDefaultInit_Log [of tbl environ st]
  by (auto simp add: New_def Let_def split: option.splits)

subsection \<open>Records written through a logger of \<open>Init\<close>\<close>

lemma formatFrame_not_Nil: "formatFrame f \<noteq> []"
  by (simp add: formatFrame_def)

lemma formatFrames_not_Nil: "frames \<noteq> [] \<Longrightarrow> formatFrames frames \<noteq> []"
  by (cases frames rule: formatFrames.cases) (simp_all add: formatFrame_not_Nil)

lemma Init_Log:
  assumes "fst (Init tbl environ level service env st) = None"
  shows "\<exists>lvl. Log (snd (Init tbl environ level service env st)) =
       Some ((conventionLogger lvl)\<lparr>ctxFields :=
                [(''service'', resolvedName ''unknown-service'' service),
                 (''env'', resolvedName ''dev'' env)]\<rparr>)"
proof -
  from assms obtain lvl where
    "UnmarshalText tbl (ToLower tbl (resolvedLevel environ level)) = Inr lvl"
    by (auto simp add: Init_succeeds)
  then show ?thesis
    by (intro exI [of _ lvl]) (simp add: Init_state_ok)
qed

lemma check_convention:
  assumes "Enabled lvl0 lvl"
  shows "check ((conventionLogger lvl0)\<lparr>ctxFields := ctx\<rparr>) lvl msg (frame # rest) =
     Some \<lparr> entLevel = lvl, entMessage = msg,
            entCaller = \<lparr> Defined = (framePC frame \<noteq> 0), callerFile = frameFile frame,
                          callerLine = frameLine frame \<rparr>,
            entStack = (if Enabled ErrorLevel lvl then formatFrames (frame # butlast rest) else []) \<rparr>"
  using assms by (simp add: check_def conventionLogger_def Let_def)

lemma Write_convention:
  assumes "Enabled lvl0 lvl" and "framePC frame \<noteq> 0"
  shows "Write ((conventionLogger lvl0)\<lparr>ctxFields := [(''service'', s), (''env'', e)]\<rparr>) lvl msg now (frame # rest) =
     Some ([(''level'', levelString lvl), (''ts'', now),
            (''caller'', TrimmedPath \<lparr> Defined = True, callerFile = frameFile frame,
                                       callerLine = frameLine frame \<rparr>),
            (''msg'', msg), (''service'', s), (''env'', e)]
           @ (if Enabled ErrorLevel lvl then [(''stacktrace'', formatFrames (frame # butlast rest))] else []))"
proof -
  have enc: "encoderConfig ((conventionLogger lvl0)\<lparr>ctxFields := [(''service'', s), (''env'', e)]\<rparr>) =
      \<lparr> MessageKey = ''msg'', LevelKey = ''level'', TimeKey = ''ts'', NameKey = ''logger'',
           CallerKey = ''caller'', StacktraceKey = ''stacktrace'', EncodeTime = RFC3339TimeEncoder,
           EncodeCaller = ShortCallerEncoder \<rparr>"
    by (simp add: conventionLogger_def)
  have ctx: "ctxFields ((conventionLogger lvl0)\<lparr>ctxFields := [(''service'', s), (''env'', e)]\<rparr>) =
      [(''service'', s), (''env'', e)]"
    by simp
  have ne: "formatFrames (frame # butlast rest) \<noteq> []"
    by (rule formatFrames_not_Nil) simp
  show ?thesis
    unfolding Write_def check_convention [OF assms(1)] enc ctx
    using ne assms(2) by (simp add: EncodeEntry_def)
qed

subsection \<open>The invariant along a sequence of calls\<close>

lemma run_snoc: "run tbl (cs @ [c]) = exec tbl (run tbl cs) c"
  by (simp add: run_def)

lemma lastResolved_snoc: "lastResolved tbl (cs @ [c]) = resolvedStep tbl (lastResolved tbl cs) c"
  by (simp add: lastResolved_def)

lemma resolvedName_defaults:
  "resolvedName ''unknown-service'' defaultService = ''unknown-service''"
  "resolvedName ''dev'' defaultEnv = ''dev''"
  by (simp_all add: resolvedName_def defaultService_def defaultEnv_def)

lemma tracked_step: "tracked st ident \<Longrightarrow> tracked (exec tbl st c) (resolvedStep tbl ident c)"
proof (cases c)
  case (CallInit environ level service env)
  assume t: "tracked st ident"
  show ?thesis
  proof (cases "UnmarshalText tbl (ToLower tbl (resolvedLevel environ level))")
    case (Inr lvl)
    then show ?thesis
      unfolding CallInit tracked_def by (simp add: Init_state_ok carries_def)
  next
    case (Inl err)
    with t show ?thesis unfolding CallInit by (simp add: Init_state_fail)
  qed
next
  case (CallNew environ module)
  assume t: "tracked st ident"
  show ?thesis
  proof (cases "Log st")
    case None
    with t have i: "ident = None" by (simp add: tracked_def)
    show ?thesis
      unfolding CallNew tracked_def
      by (simp add: New_unfold ensureDefaultInit_def None i resolvedName_defaults
          Init_state_ok [OF default_level_parses] carries_def)
  next
    case (Some l)
    with t obtain i where "ident = Some i" by (auto simp add: tracked_def)
    with t Some show ?thesis unfolding CallNew by (simp add: New_unfold ensureDefaultInit_def)
  qed
next
  case (CallSync flush)
  assume "tracked st ident"
  then show ?thesis unfolding CallSync by simp
qed

lemma tracked_run: "tracked (run tbl cs) (lastResolved tbl cs)"
proof (induction cs rule: rev_induct)
  case Nil
  show ?case by (simp add: run_def lastResolved_def tracked_def initial_def carries_def)
next
  case (snoc c cs)
  from tracked_step [OF snoc.IH, where c = c and tbl = tbl] show ?case
    by (simp add: run_snoc lastResolved_snoc)
qed

section \<open>The claims\<close>

text \<open>
  C1. For every call \<open>Init(level, service, env)\<close> the minimum severity is parsed from the
  trimmed \<open>level\<close> argument if that is not empty, otherwise from the trimmed value of
  \<open>LOG_LEVEL\<close> if that is not empty, otherwise from \<open>info\<close>; the resolved string is
  lower-cased before it is parsed. When the parse fails the call returns the error naming
  the resolved string and leaves the package variables as they were; when it succeeds the
  logger's minimum level is the parsed level. White space around the argument does not
  change the call, and the outcome does not depend on the letter case of the argument or of
  the variable (both shown for ASCII input, where the case table plays no part).
\<close>

theorem Init_level_resolution:
  "(case UnmarshalText tbl (ToLower tbl (resolvedLevel environ level)) of
      Inl err \<Rightarrow>
        Init tbl environ level service env st =
          (Some (InvalidLevel (resolvedLevel environ level) err), st)
    | Inr lvl \<Rightarrow>
        fst (Init tbl environ level service env st) = None \<and>
        map_option coreLevel (Log (snd (Init tbl environ level service env st))) = Some lvl)
   \<and> (list_all asciiSpace ws \<and> list_all asciiSpace ws' \<and> list_all isASCII level \<longrightarrow>
        Init tbl environ (ws @ level @ ws') service env st = Init tbl environ level service env st)
   \<and> (list_all isASCII level \<and> list_all isASCII (Getenv environ ''LOG_LEVEL'') \<and>
        map toLowerByte level' = map toLowerByte level \<and>
        map toLowerByte (Getenv environ' ''LOG_LEVEL'') = map toLowerByte (Getenv environ ''LOG_LEVEL'') \<longrightarrow>
        (fst (Init tbl environ' level' service env st) = None \<longleftrightarrow>
           fst (Init tbl environ level service env st) = None) \<and>
        map_option coreLevel (Log (snd (Init tbl environ' level' service env st))) =
          map_option coreLevel (Log (snd (Init tbl environ level service env st))))"
proof (intro conjI impI)
  show "case UnmarshalText tbl (ToLower tbl (resolvedLevel environ level)) of
      Inl err \<Rightarrow>
        Init tbl environ level service env st =
          (Some (InvalidLevel (resolvedLevel environ level) err), st)
    | Inr lvl \<Rightarrow>
        fst (Init tbl environ level service env st) = None \<and>
        map_option coreLevel (Log (snd (Init tbl environ level service env st))) = Some lvl"
    by (simp add: Init_unfold conventionLogger_def split: sum.splits)
next
  assume a: "list_all asciiSpace ws \<and> list_all asciiSpace ws' \<and> list_all isASCII level"
  then have "TrimSpace (ws @ level @ ws') = TrimSpace level"
    by (intro TrimSpace_pad) simp_all
  then show "Init tbl environ (ws @ level @ ws') service env st = Init tbl environ level service env st"
    by (rule Init_same_level)
next
  assume a: "list_all isASCII level \<and> list_all isASCII (Getenv environ ''LOG_LEVEL'') \<and>
        map toLowerByte level' = map toLowerByte level \<and>
        map toLowerByte (Getenv environ' ''LOG_LEVEL'') = map toLowerByte (Getenv environ ''LOG_LEVEL'')"
  then have l: "list_all isASCII level" and e: "list_all isASCII (Getenv environ ''LOG_LEVEL'')"
    and ml: "map toLowerByte level' = map toLowerByte level"
    and me: "map toLowerByte (Getenv environ' ''LOG_LEVEL'') = map toLowerByte (Getenv environ ''LOG_LEVEL'')"
    by blast+
  have l': "list_all isASCII level'"
    using l isASCII_lowered [of level] isASCII_lowered [of level'] ml by simp
  have e': "list_all isASCII (Getenv environ' ''LOG_LEVEL'')"
    using e isASCII_lowered [of "Getenv environ ''LOG_LEVEL''"]
      isASCII_lowered [of "Getenv environ' ''LOG_LEVEL''"] me by simp
  have eq: "ToLower tbl (resolvedLevel environ' level') = ToLower tbl (resolvedLevel environ level)"
    by (simp only: resolvedLevel_lowered [OF l e] resolvedLevel_lowered [OF l' e'] ml me)
  from Init_same_parse [OF eq]
  show "fst (Init tbl environ' level' service env st) = None \<longleftrightarrow>
           fst (Init tbl environ level service env st) = None"
    and "map_option coreLevel (Log (snd (Init tbl environ' level' service env st))) =
          map_option coreLevel (Log (snd (Init tbl environ level service env st)))"
    by blast+
qed

text \<open>
  Witness for C1. \<open>LOG_LEVEL\<close> holds \<open>" DeBuG\t"\<close>. A \<open>level\<close> argument that is one
  no-break space (\<open>U+00A0\<close>) is blank, so the variable decides: the minimum severity is
  \<open>debug\<close>. The argument \<open>"  WaRn "\<close> takes precedence over the variable, gives \<open>warn\<close>, and
  is the same call as \<open>"WaRn"\<close>; \<open>"WARN"\<close> gives the same level.
\<close>

theorem Init_level_resolution_witness:
  "fst (Init exampleTable (noEnviron(''LOG_LEVEL'' \<mapsto> [CHR '' '', CHR ''D'', CHR ''e'', CHR ''B'', CHR ''u'', CHR ''G'', CHR 0x09]))
          [CHR 0xC2, CHR 0xA0] [] [] initial) = None
   \<and> map_option coreLevel
        (Log (snd (Init exampleTable (noEnviron(''LOG_LEVEL'' \<mapsto> [CHR '' '', CHR ''D'', CHR ''e'', CHR ''B'', CHR ''u'', CHR ''G'', CHR 0x09]))
          [CHR 0xC2, CHR 0xA0] [] [] initial))) = Some DebugLevel
   \<and> map_option coreLevel
        (Log (snd (Init exampleTable (noEnviron(''LOG_LEVEL'' \<mapsto> [CHR '' '', CHR ''D'', CHR ''e'', CHR ''B'', CHR ''u'', CHR ''G'', CHR 0x09]))
          ''  WaRn '' [] [] initial))) = Some WarnLevel
   \<and> Init exampleTable (noEnviron(''LOG_LEVEL'' \<mapsto> [CHR '' '', CHR ''D'', CHR ''e'', CHR ''B'', CHR ''u'', CHR ''G'', CHR 0x09]))
          ''  WaRn '' [] [] initial
       = Init exampleTable (noEnviron(''LOG_LEVEL'' \<mapsto> [CHR '' '', CHR ''D'', CHR ''e'', CHR ''B'', CHR ''u'', CHR ''G'', CHR 0x09]))
          ''WaRn'' [] [] initial
   \<and> map_option coreLevel
        (Log (snd (Init exampleTable (noEnviron(''LOG_LEVEL'' \<mapsto> [CHR '' '', CHR ''D'', CHR ''e'', CHR ''B'', CHR ''u'', CHR ''G'', CHR 0x09]))
          ''WARN'' [] [] initial))) = Some WarnLevel"
proof -
  let ?e = "noEnviron(''LOG_LEVEL'' \<mapsto> [CHR '' '', CHR ''D'', CHR ''e'', CHR ''B'', CHR ''u'', CHR ''G'', CHR 0x09])"
  have p: "UnmarshalText exampleTable (ToLower exampleTable (resolvedLevel ?e [CHR 0xC2, CHR 0xA0])) = Inr DebugLevel"
    by code_simp
  have q: "UnmarshalText exampleTable (ToLower exampleTable (resolvedLevel ?e ''  WaRn '')) = Inr WarnLevel"
    by code_simp
  have h1: "list_all asciiSpace ''  '' \<and> list_all asciiSpace '' '' \<and> list_all isASCII ''WaRn''"
    by code_simp
  have h3: "list_all isASCII ''WaRn'' \<and> list_all isASCII (Getenv ?e ''LOG_LEVEL'') \<and>
        map toLowerByte ''WARN'' = map toLowerByte ''WaRn'' \<and>
        map toLowerByte (Getenv ?e ''LOG_LEVEL'') = map toLowerByte (Getenv ?e ''LOG_LEVEL'')"
    by code_simp
  note t1 = Init_level_resolution [of exampleTable ?e "[CHR 0xC2, CHR 0xA0]" "[]" "[]" initial "[]" "[]" "[]" ?e]
  note t2 = Init_level_resolution [of exampleTable ?e "''  WaRn ''" "[]" "[]" initial "[]" "[]" "[]" ?e]
  note t3 = Init_level_resolution [of exampleTable ?e "''WaRn''" "[]" "[]" initial "''  ''" "'' ''" "''WARN''" ?e]
  from t1 p have a: "fst (Init exampleTable ?e [CHR 0xC2, CHR 0xA0] [] [] initial) = None \<and>
        map_option coreLevel (Log (snd (Init exampleTable ?e [CHR 0xC2, CHR 0xA0] [] [] initial))) = Some DebugLevel"
    by (simp only: sum.case)
  from t2 q have b: "map_option coreLevel (Log (snd (Init exampleTable ?e ''  WaRn '' [] [] initial))) = Some WarnLevel"
    by (simp only: sum.case)
  from t3 h1 have "Init exampleTable ?e (''  '' @ ''WaRn'' @ '' '') [] [] initial =
      Init exampleTable ?e ''WaRn'' [] [] initial"
    by blast
  then have c: "Init exampleTable ?e ''  WaRn '' [] [] initial = Init exampleTable ?e ''WaRn'' [] [] initial"
    by simp
  from t3 h3 have "map_option coreLevel (Log (snd (Init exampleTable ?e ''WARN'' [] [] initial))) =
      map_option coreLevel (Log (snd (Init exampleTable ?e ''WaRn'' [] [] initial)))"
    by blast
  with b c have d: "map_option coreLevel (Log (snd (Init exampleTable ?e ''WARN'' [] [] initial))) = Some WarnLevel"
    by simp
  from a b c d show ?thesis by (simp only:)
qed

text \<open>
  C2. \<open>Init\<close> returns an error exactly when the engine does not parse the resolved level
  string (trimmed, taken from the fallbacks, lower-cased); the error is then the
  invalid-level error naming the resolved string and wrapping the engine's complaint about
  the lower-cased string, and there is no other error. For a resolved string of ASCII bytes
  the call fails exactly when the lower-cased string is none of the severity names. A
  severity name in any letter case is accepted, and the minimum level is the level of that
  name.
\<close>

theorem Init_fails_iff_invalid_level:
  "(fst (Init tbl environ level service env st) \<noteq> None \<longleftrightarrow>
      (\<exists>err. UnmarshalText tbl (ToLower tbl (resolvedLevel environ level)) = Inl err))
   \<and> (fst (Init tbl environ level service env st) \<noteq> None \<longrightarrow>
      fst (Init tbl environ level service env st) =
        Some (InvalidLevel (resolvedLevel environ level)
               (UnrecognizedLevel (ToLower tbl (resolvedLevel environ level)))))
   \<and> (list_all isASCII (resolvedLevel environ level) \<longrightarrow>
      (fst (Init tbl environ level service env st) \<noteq> None \<longleftrightarrow>
         map toLowerByte (resolvedLevel environ level) \<notin> set severityNames))
   \<and> (map toLowerByte level = levelString lvl \<longrightarrow>
      fst (Init tbl environ level service env st) = None \<and>
      map_option coreLevel (Log (snd (Init tbl environ level service env st))) = Some lvl)"
proof (intro conjI impI)
  show "fst (Init tbl environ level service env st) \<noteq> None \<longleftrightarrow>
      (\<exists>err. UnmarshalText tbl (ToLower tbl (resolvedLevel environ level)) = Inl err)"
    by (rule Init_fails)
  show "fst (Init tbl environ level service env st) =
        Some (InvalidLevel (resolvedLevel environ level)
               (UnrecognizedLevel (ToLower tbl (resolvedLevel environ level))))"
    if "fst (Init tbl environ level service env st) \<noteq> None"
  proof -
    from that obtain err where
      e: "UnmarshalText tbl (ToLower tbl (resolvedLevel environ level)) = Inl err"
      unfolding Init_fails by blast
    from UnmarshalText_error [OF e] e show ?thesis by (simp add: Init_unfold)
  qed
next
  assume a: "list_all isASCII (resolvedLevel environ level)"
  have "UnmarshalText tbl (ToLower tbl (resolvedLevel environ level)) =
     (if map toLowerByte (resolvedLevel environ level) \<in> set severityNames
      then Inr (the (unmarshalText (map toLowerByte (resolvedLevel environ level))))
      else Inl (UnrecognizedLevel (map toLowerByte (resolvedLevel environ level))))"
    using UnmarshalText_lowered [OF a resolvedLevel_not_Nil] by (simp add: ToLower_ASCII [OF a])
  then show "fst (Init tbl environ level service env st) \<noteq> None \<longleftrightarrow>
         map toLowerByte (resolvedLevel environ level) \<notin> set severityNames"
    unfolding Init_fails by simp
next
  assume n: "map toLowerByte level = levelString lvl"
  have l: "list_all isASCII level"
    using isASCII_lowered [of level] isASCII_levelString [of lvl] n by simp
  have t: "trimASCII (map toLowerByte level) = levelString lvl"
    by (simp add: n trimASCII_levelString)
  have "levelString lvl \<noteq> []" by (cases lvl) simp_all
  with t lowered_trimmed(1) [OF l, of tbl] lowered_trimmed(2) [OF l]
  have "ToLower tbl (resolvedLevel environ level) = levelString lvl"
    by (simp add: resolvedLevel_def)
  moreover have "UnmarshalText tbl (levelString lvl) = Inr lvl"
    by (simp add: UnmarshalText_def unmarshalText_levelString)
  ultimately have p: "UnmarshalText tbl (ToLower tbl (resolvedLevel environ level)) = Inr lvl"
    by simp
  show "fst (Init tbl environ level service env st) = None"
    using p by (simp add: Init_succeeds)
  show "map_option coreLevel (Log (snd (Init tbl environ level service env st))) = Some lvl"
    by (simp add: Init_state_ok [OF p] conventionLogger_def)
qed

text \<open>
  Witness for C2. \<open>verbose\<close> is rejected with the invalid-level error. The byte \<open>0xFF\<close> is
  rejected too, and the engine's complaint names \<open>U+FFFD\<close>, which lower-casing puts in the
  place of the invalid byte. \<open>ErRoR\<close> is accepted as \<open>error\<close>. \<open>U+0130\<close> followed by
  \<open>NFO\<close> is accepted, because lower-casing turns it into \<open>info\<close>.
\<close>

theorem Init_fails_iff_invalid_level_witness:
  "fst (Init exampleTable noEnviron ''verbose'' ''svc'' ''prod'' initial) =
     Some (InvalidLevel ''verbose'' (UnrecognizedLevel ''verbose''))
   \<and> fst (Init exampleTable noEnviron [CHR 0xFF] ''svc'' ''prod'' initial) =
     Some (InvalidLevel [CHR 0xFF] (UnrecognizedLevel [CHR 0xEF, CHR 0xBF, CHR 0xBD]))
   \<and> fst (Init exampleTable noEnviron ''ErRoR'' ''svc'' ''prod'' initial) = None
   \<and> map_option coreLevel (Log (snd (Init exampleTable noEnviron ''ErRoR'' ''svc'' ''prod'' initial))) =
       Some ErrorLevel
   \<and> fst (Init exampleTable noEnviron [CHR 0xC4, CHR 0xB0, CHR ''N'', CHR ''F'', CHR ''O''] ''svc'' ''prod'' initial) = None"
proof -
  let ?dotted = "[CHR 0xC4, CHR 0xB0, CHR ''N'', CHR ''F'', CHR ''O'']"
  have a1: "list_all isASCII (resolvedLevel noEnviron ''verbose'')"
    by code_simp
  have bad: "map toLowerByte (resolvedLevel noEnviron ''verbose'') \<notin> set severityNames"
    by code_simp
  have r: "resolvedLevel noEnviron ''verbose'' = ''verbose''"
    by code_simp
  have l: "ToLower exampleTable ''verbose'' = ''verbose''"
    by code_simp
  have r2: "resolvedLevel noEnviron [CHR 0xFF] = [CHR 0xFF]"
    by code_simp
  have l2: "ToLower exampleTable [CHR 0xFF] = [CHR 0xEF, CHR 0xBF, CHR 0xBD]"
    by code_simp
  have bad2: "UnmarshalText exampleTable (ToLower exampleTable (resolvedLevel noEnviron [CHR 0xFF])) =
      Inl (UnrecognizedLevel [CHR 0xEF, CHR 0xBF, CHR 0xBD])"
    by code_simp
  have good: "map toLowerByte ''ErRoR'' = levelString ErrorLevel"
    by code_simp
  have dotted: "UnmarshalText exampleTable (ToLower exampleTable (resolvedLevel noEnviron ?dotted)) =
      Inr InfoLevel"
    by code_simp
  note t1 = Init_fails_iff_invalid_level [of exampleTable noEnviron "''verbose''" "''svc''" "''prod''" initial ErrorLevel]
  note t2 = Init_fails_iff_invalid_level [of exampleTable noEnviron "[CHR 0xFF]" "''svc''" "''prod''" initial ErrorLevel]
  note t3 = Init_fails_iff_invalid_level [of exampleTable noEnviron "''ErRoR''" "''svc''" "''prod''" initial ErrorLevel]
  note t4 = Init_fails_iff_invalid_level [of exampleTable noEnviron ?dotted "''svc''" "''prod''" initial ErrorLevel]
  from t1 a1 bad have "fst (Init exampleTable noEnviron ''verbose'' ''svc'' ''prod'' initial) =
        Some (InvalidLevel (resolvedLevel noEnviron ''verbose'')
               (UnrecognizedLevel (ToLower exampleTable (resolvedLevel noEnviron ''verbose''))))"
    by blast
  then have a: "fst (Init exampleTable noEnviron ''verbose'' ''svc'' ''prod'' initial) =
     Some (InvalidLevel ''verbose'' (UnrecognizedLevel ''verbose''))"
    by (simp only: r l)
  from t2 bad2 have "fst (Init exampleTable noEnviron [CHR 0xFF] ''svc'' ''prod'' initial) =
        Some (InvalidLevel (resolvedLevel noEnviron [CHR 0xFF])
               (UnrecognizedLevel (ToLower exampleTable (resolvedLevel noEnviron [CHR 0xFF]))))"
    by blast
  then have b: "fst (Init exampleTable noEnviron [CHR 0xFF] ''svc'' ''prod'' initial) =
     Some (InvalidLevel [CHR 0xFF] (UnrecognizedLevel [CHR 0xEF, CHR 0xBF, CHR 0xBD]))"
    by (simp only: r2 l2)
  from t3 good have c: "fst (Init exampleTable noEnviron ''ErRoR'' ''svc'' ''prod'' initial) = None \<and>
      map_option coreLevel (Log (snd (Init exampleTable noEnviron ''ErRoR'' ''svc'' ''prod'' initial))) = Some ErrorLevel"
    by blast
  from t4 dotted have d: "fst (Init exampleTable noEnviron ?dotted ''svc'' ''prod'' initial) = None"
    by auto
  from a b c d show ?thesis by (simp only:)
qed

text \<open>
  C3. A call of \<open>Init\<close> that returns an error leaves the package variables as they were:
  \<open>Log\<close> (also when it was still nil), \<open>serviceName\<close> and \<open>envName\<close> keep their values.
\<close>

theorem Init_failure_keeps_state:
  "fst (Init tbl environ level service env st) \<noteq> None \<Longrightarrow>
     snd (Init tbl environ level service env st) = st
     \<and> Log (snd (Init tbl environ level service env st)) = Log st
     \<and> serviceName (snd (Init tbl environ level service env st)) = serviceName st
     \<and> envName (snd (Init tbl environ level service env st)) = envName st"
proof -
  assume "fst (Init tbl environ level service env st) \<noteq> None"
  then obtain err where
    "UnmarshalText tbl (ToLower tbl (resolvedLevel environ level)) = Inl err"
    unfolding Init_fails by blast
  then have "snd (Init tbl environ level service env st) = st"
    by (rule Init_state_fail)
  then show ?thesis by simp
qed

text \<open>
  Witness for C3: a failing call on the initial variables leaves \<open>Log\<close> nil, and a failing
  call after a successful one leaves the variables of the successful one.
\<close>

theorem Init_failure_keeps_state_witness:
  "snd (Init exampleTable noEnviron ''verbose'' ''billing'' ''prod'' initial) = initial
   \<and> Log (snd (Init exampleTable noEnviron ''verbose'' ''billing'' ''prod'' initial)) = None
   \<and> snd (Init exampleTable noEnviron ''verbose'' ''billing'' ''prod''
            (snd (Init exampleTable noEnviron ''info'' ''orders'' ''stage'' initial)))
       = snd (Init exampleTable noEnviron ''info'' ''orders'' ''stage'' initial)"
proof -
  have f1: "fst (Init exampleTable noEnviron ''verbose'' ''billing'' ''prod'' initial) \<noteq> None"
    by code_simp
  have f2: "fst (Init exampleTable noEnviron ''verbose'' ''billing'' ''prod''
            (snd (Init exampleTable noEnviron ''info'' ''orders'' ''stage'' initial))) \<noteq> None"
    by code_simp
  have i: "Log initial = None" by (simp add: initial_def)
  from Init_failure_keeps_state [OF f1] Init_failure_keeps_state [OF f2] i
  show ?thesis by (simp only:)
qed

text \<open>
  C4. \<open>Sync\<close> returns nil when \<open>Log\<close> is nil, without asking the engine; when \<open>Log\<close> is set
  it returns nil if the engine's flush succeeds or fails with an error that is \<open>EPIPE\<close>
  in the sense of \<open>errors.Is\<close>, and returns the engine's error itself in every other case.
\<close>

theorem Sync_result:
  "(Log st = None \<longrightarrow> Sync flush st = None)
   \<and> (\<forall>l err. Log st = Some l \<and> flush l = Some err \<and> errors_Is err EPIPE \<longrightarrow> Sync flush st = None)
   \<and> (\<forall>l err. Log st = Some l \<and> flush l = Some err \<and> \<not> errors_Is err EPIPE \<longrightarrow>
         Sync flush st = Some err)
   \<and> (\<forall>l. Log st = Some l \<and> flush l = None \<longrightarrow> Sync flush st = None)"
  by (simp add: Sync_def)


text \<open>
  Witness for C4: with \<open>Log\<close> set, a flush failing with a wrapped \<open>EPIPE\<close> gives nil, a
  flush failing with a wrapped \<open>EINVAL\<close> (errno 22) gives that error, a flush that succeeds
  gives nil; with \<open>Log\<close> nil the result is nil.
\<close>

theorem Sync_result_witness:
  "Sync (\<lambda>l. Some (Wrapped ''write /dev/stdout'' (Errno 32)))
      (snd (Init exampleTable noEnviron ''info'' [] [] initial)) = None
   \<and> Sync (\<lambda>l. Some (Wrapped ''sync /dev/stdout'' (Errno 22)))
      (snd (Init exampleTable noEnviron ''info'' [] [] initial)) = Some (Wrapped ''sync /dev/stdout'' (Errno 22))
   \<and> Sync (\<lambda>l. None) (snd (Init exampleTable noEnviron ''info'' [] [] initial)) = None
   \<and> Sync (\<lambda>l. Some (Errno 22)) initial = None"
proof -
  let ?st = "snd (Init exampleTable noEnviron ''info'' [] [] initial)"
  let ?pipe = "Wrapped ''write /dev/stdout'' (Errno 32)"
  let ?inval = "Wrapped ''sync /dev/stdout'' (Errno 22)"
  have l: "Log ?st = Some (the (Log ?st))" by code_simp
  have p: "errors_Is ?pipe EPIPE" by (simp add: EPIPE_def)
  have q: "\<not> errors_Is ?inval EPIPE" by (simp add: EPIPE_def)
  have i: "Log initial = None" by (simp add: initial_def)
  from Sync_result [of ?st "\<lambda>l. Some ?pipe"] l p
  have a: "Sync (\<lambda>l. Some ?pipe) ?st = None" by blast
  from Sync_result [of ?st "\<lambda>l. Some ?inval"] l q
  have b: "Sync (\<lambda>l. Some ?inval) ?st = Some ?inval" by blast
  from Sync_result [of initial "\<lambda>l. Some (Errno 22)"] i
  have c: "Sync (\<lambda>l. Some (Errno 22)) initial = None" by blast
  from Sync_result [of ?st "\<lambda>l. None"] l
  have d: "Sync (\<lambda>l. None) ?st = None" by blast
  from a b c d show ?thesis by (simp only:)
qed

text \<open>
  C5, as stated, read literally: once \<open>Log\<close> is set it carries exactly the fields
  \<open>service\<close> and \<open>env\<close> with the values last passed to initialization. This fails in two
  ways. After \<open>Init("info", "", "")\<close> the values passed are empty and the fields hold the
  defaults. After \<open>Init("info", "a", "b")\<close> and a failing \<open>Init("verbose", "c", "d")\<close> the
  values last passed are \<open>c\<close> and \<open>d\<close> and the fields still hold \<open>a\<close> and \<open>b\<close>.
\<close>

theorem GlobalLogger_last_passed_counterexample:
  "\<not> carries (Log (run exampleTable [CallInit noEnviron ''info'' [] []])) (Some ([], []))
   \<and> \<not> carries (Log (run exampleTable
          [CallInit noEnviron ''info'' ''a'' ''b'', CallInit noEnviron ''verbose'' ''c'' ''d'']))
        (Some (''c'', ''d''))"
  by code_simp

text \<open>
  C5, amended. Along every sequence of calls from the initial variables, \<open>Log\<close> is nil
  exactly as long as no initialization has succeeded, and once it is set it carries exactly
  the fields \<open>service\<close> and \<open>env\<close> with the identity resolved by the most recent successful
  initialization (each argument as passed when it is not blank, its default otherwise; the
  lazy initialization of \<open>New\<close> counts). A successful \<open>Init\<close> on any variables replaces
  \<open>Log\<close> by a logger with exactly these two fields, whatever fields the previous logger
  had. A module logger carries those two fields and then exactly one more, \<open>module\<close>.
\<close>

theorem GlobalLogger_fields_invariant:
  "carries (Log (run tbl cs)) (lastResolved tbl cs)
   \<and> (Log (run tbl cs) = None \<longleftrightarrow> lastResolved tbl cs = None)
   \<and> (fst (Init tbl environ level service env st) = None \<longrightarrow>
        map_option ctxFields (Log (snd (Init tbl environ level service env st))) =
          Some [(''service'', resolvedName ''unknown-service'' service),
                (''env'', resolvedName ''dev'' env)])
   \<and> (case fst (New tbl environ module (run tbl cs)) of
         Inl p \<Rightarrow> False
       | Inr lg \<Rightarrow>
           (case lastResolved tbl (cs @ [CallNew environ module]) of
              None \<Rightarrow> False
            | Some (s, e) \<Rightarrow> ctxFields lg = [(''service'', s), (''env'', e), (''module'', module)]))"
proof (intro conjI impI)
  from tracked_run [of tbl cs] show "carries (Log (run tbl cs)) (lastResolved tbl cs)"
    by (simp add: tracked_def)
  from tracked_run [of tbl cs] show "Log (run tbl cs) = None \<longleftrightarrow> lastResolved tbl cs = None"
    by (simp add: tracked_def)
next
  assume "fst (Init tbl environ level service env st) = None"
  from Init_Log [OF this] show "map_option ctxFields (Log (snd (Init tbl environ level service env st))) =
          Some [(''service'', resolvedName ''unknown-service'' service),
                (''env'', resolvedName ''dev'' env)]"
    by auto
next
  let ?cs = "cs @ [CallNew environ module]"
  obtain g where g: "Log (ensureDefaultInit tbl environ (run tbl cs)) = Some g"
    using ensureDefaultInit_Log [of tbl environ "run tbl cs"] by blast
  have r: "run tbl ?cs = ensureDefaultInit tbl environ (run tbl cs)"
    by (simp add: run_snoc New_unfold)
  from tracked_run [of tbl ?cs] have "carries (Some g) (lastResolved tbl ?cs)"
    by (simp add: tracked_def r g)
  then show "case fst (New tbl environ module (run tbl cs)) of
         Inl p \<Rightarrow> False
       | Inr lg \<Rightarrow>
           (case lastResolved tbl ?cs of
              None \<Rightarrow> False
            | Some (s, e) \<Rightarrow> ctxFields lg = [(''service'', s), (''env'', e), (''module'', module)])"
    by (simp add: New_unfold g With_def carries_def split: option.splits prod.splits)
qed

text \<open>
  Witness for C5: after \<open>Init("info", "a", "b")\<close>, a failing \<open>Init("verbose", "c", "d")\<close> and
  \<open>Init("warn", "\<dots>", "prod")\<close> with a service of one no-break space (\<open>U+00A0\<close>), the global
  logger carries \<open>service = unknown-service\<close> and \<open>env = prod\<close> and nothing of the first
  initialization, and \<open>New("http")\<close> adds \<open>module = http\<close>.
\<close>

theorem GlobalLogger_fields_invariant_witness:
  "map_option ctxFields
     (Log (run exampleTable
        [CallInit noEnviron ''info'' ''a'' ''b'', CallInit noEnviron ''verbose'' ''c'' ''d'',
         CallInit noEnviron ''warn'' [CHR 0xC2, CHR 0xA0] ''prod'']))
     = Some [(''service'', ''unknown-service''), (''env'', ''prod'')]
   \<and> map_option ctxFields
     (Log (snd (Init exampleTable noEnviron ''warn'' [CHR 0xC2, CHR 0xA0] ''prod''
        (snd (Init exampleTable noEnviron ''info'' ''a'' ''b'' initial)))))
     = Some [(''service'', ''unknown-service''), (''env'', ''prod'')]
   \<and> (case fst (New exampleTable noEnviron ''http''
          (run exampleTable
             [CallInit noEnviron ''info'' ''a'' ''b'', CallInit noEnviron ''verbose'' ''c'' ''d'',
              CallInit noEnviron ''warn'' [CHR 0xC2, CHR 0xA0] ''prod''])) of
         Inl p \<Rightarrow> False
       | Inr lg \<Rightarrow>
           ctxFields lg = [(''service'', ''unknown-service''), (''env'', ''prod''), (''module'', ''http'')])"
proof -
  let ?cs = "[CallInit noEnviron ''info'' ''a'' ''b'', CallInit noEnviron ''verbose'' ''c'' ''d'',
                CallInit noEnviron ''warn'' [CHR 0xC2, CHR 0xA0] ''prod'']"
  let ?st = "snd (Init exampleTable noEnviron ''info'' ''a'' ''b'' initial)"
  have i: "lastResolved exampleTable ?cs = Some (''unknown-service'', ''prod'')"
    by code_simp
  have j: "lastResolved exampleTable (?cs @ [CallNew noEnviron ''http'']) = Some (''unknown-service'', ''prod'')"
    by code_simp
  have ok: "fst (Init exampleTable noEnviron ''warn'' [CHR 0xC2, CHR 0xA0] ''prod'' ?st) = None"
    by code_simp
  have n: "resolvedName ''unknown-service'' [CHR 0xC2, CHR 0xA0] = ''unknown-service''"
    "resolvedName ''dev'' ''prod'' = ''prod''"
    by code_simp+
  note t = GlobalLogger_fields_invariant [of exampleTable ?cs noEnviron "''warn''" "[CHR 0xC2, CHR 0xA0]" "''prod''" ?st "''http''"]
  from t have c: "carries (Log (run exampleTable ?cs)) (lastResolved exampleTable ?cs)"
    and s: "Log (run exampleTable ?cs) \<noteq> None"
    by (simp_all only: i) simp_all
  from c s have a: "map_option ctxFields (Log (run exampleTable ?cs)) =
      Some [(''service'', ''unknown-service''), (''env'', ''prod'')]"
    unfolding i by (auto simp add: carries_def)
  from t ok have b: "map_option ctxFields (Log (snd (Init exampleTable noEnviron ''warn'' [CHR 0xC2, CHR 0xA0] ''prod'' ?st))) =
          Some [(''service'', resolvedName ''unknown-service'' [CHR 0xC2, CHR 0xA0]),
                (''env'', resolvedName ''dev'' ''prod'')]"
    by blast
  from t have "case fst (New exampleTable noEnviron ''http'' (run exampleTable ?cs)) of
         Inl p \<Rightarrow> False
       | Inr lg \<Rightarrow>
           (case lastResolved exampleTable (?cs @ [CallNew noEnviron ''http'']) of
              None \<Rightarrow> False
            | Some (s, e) \<Rightarrow> ctxFields lg = [(''service'', s), (''env'', e), (''module'', ''http'')])"
    by blast
  then have d: "case fst (New exampleTable noEnviron ''http'' (run exampleTable ?cs)) of
         Inl p \<Rightarrow> False
       | Inr lg \<Rightarrow>
           ctxFields lg = [(''service'', ''unknown-service''), (''env'', ''prod''), (''module'', ''http'')]"
    by (simp only: j option.case prod.case)
  from a b d show ?thesis by (simp only: n)
qed

text \<open>
  C6. For every string \<open>module\<close>, the empty string included, \<open>New\<close> returns the global
  logger (as it stands after the call) extended with exactly one more field, \<open>module\<close>, whose
  value is the argument as passed; everything else of the logger is that of the global
  logger.
\<close>

theorem New_adds_module_field:
  "(\<exists>g. Log (snd (New tbl environ module st)) = Some g
        \<and> fst (New tbl environ module st) = Inr (g\<lparr>ctxFields := ctxFields g @ [(''module'', module)]\<rparr>))
   \<and> (case fst (New tbl environ [] st) of
         Inl p \<Rightarrow> False
       | Inr lg \<Rightarrow> last (ctxFields lg) = (''module'', []))"
proof -
  obtain g where g: "Log (ensureDefaultInit tbl environ st) = Some g"
    using ensureDefaultInit_Log [of tbl environ st] by blast
  have "fst (New tbl environ module st) = Inr (g\<lparr>ctxFields := ctxFields g @ [(''module'', module)]\<rparr>)"
    by (simp add: New_unfold g With_def)
  moreover have "Log (snd (New tbl environ module st)) = Some g"
    by (simp add: New_unfold g)
  moreover have "case fst (New tbl environ [] st) of
         Inl p \<Rightarrow> False
       | Inr lg \<Rightarrow> last (ctxFields lg) = (''module'', [])"
    by (simp add: New_unfold g With_def)
  ultimately show ?thesis by blast
qed

text \<open>
  Witness for C6: \<open>New("")\<close> after \<open>Init("info", "billing-api", "prod")\<close> returns the
  global logger with the field \<open>module = ""\<close> appended.
\<close>

theorem New_adds_module_field_witness:
  "map_option ctxFields (Log (snd (New exampleTable noEnviron [] (snd (Init exampleTable noEnviron ''info'' ''billing-api'' ''prod'' initial)))))
     = Some [(''service'', ''billing-api''), (''env'', ''prod'')]
   \<and> (case fst (New exampleTable noEnviron [] (snd (Init exampleTable noEnviron ''info'' ''billing-api'' ''prod'' initial))) of
         Inl p \<Rightarrow> False
       | Inr lg \<Rightarrow> last (ctxFields lg) = (''module'', []))"
proof -
  let ?st = "snd (Init exampleTable noEnviron ''info'' ''billing-api'' ''prod'' initial)"
  have a: "map_option ctxFields (Log (snd (New exampleTable noEnviron [] ?st)))
     = Some [(''service'', ''billing-api''), (''env'', ''prod'')]"
    by code_simp
  from New_adds_module_field [of exampleTable noEnviron "[]" ?st] a show ?thesis by blast
qed

text \<open>
  C7. \<open>New\<close> never fails: when \<open>Log\<close> is nil it first runs \<open>Init\<close> with \<open>info\<close>,
  \<open>unknown-service\<close> and \<open>dev\<close>, a call that returns no error in any environment, and
  otherwise it leaves the package variables alone; so after every call of \<open>New\<close> a logger is
  returned and \<open>Log\<close> is set.
\<close>

theorem New_never_fails:
  "(\<exists>lg. fst (New tbl environ module st) = Inr lg)
   \<and> Log (snd (New tbl environ module st)) \<noteq> None
   \<and> fst (Init tbl environ ''info'' ''unknown-service'' ''dev'' st) = None
   \<and> snd (New tbl environ module st) =
       (if Log st = None then snd (Init tbl environ ''info'' ''unknown-service'' ''dev'' st) else st)"
proof -
  have a: "\<exists>lg. fst (New tbl environ module st) = Inr lg"
    by (simp add: New_unfold)
  have b: "Log (snd (New tbl environ module st)) \<noteq> None"
    by (simp add: New_unfold ensureDefaultInit_Log)
  have c: "fst (Init tbl environ ''info'' ''unknown-service'' ''dev'' st) = None"
    using default_Init_succeeds [of tbl environ st]
    by (simp add: defaultLevel_def defaultService_def defaultEnv_def)
  have d: "snd (New tbl environ module st) =
       (if Log st = None then snd (Init tbl environ ''info'' ''unknown-service'' ''dev'' st) else st)"
    by (simp add: New_unfold ensureDefaultInit_def defaultLevel_def defaultService_def defaultEnv_def)
  from a b c d show ?thesis by blast
qed

text \<open>
  Witness for C7: \<open>New("http")\<close> on the initial variables returns a logger and sets \<open>Log\<close>
  to the logger of the default initialization.
\<close>

theorem New_never_fails_witness:
  "(\<exists>lg. fst (New exampleTable noEnviron ''http'' initial) = Inr lg)
   \<and> Log (snd (New exampleTable noEnviron ''http'' initial)) \<noteq> None
   \<and> snd (New exampleTable noEnviron ''http'' initial) = snd (Init exampleTable noEnviron ''info'' ''unknown-service'' ''dev'' initial)"
proof -
  have i: "Log initial = None" by (simp add: initial_def)
  note t = New_never_fails [of exampleTable noEnviron "''http''" initial]
  from t i have d: "snd (New exampleTable noEnviron ''http'' initial) =
      snd (Init exampleTable noEnviron ''info'' ''unknown-service'' ''dev'' initial)"
    by simp
  from t d show ?thesis by blast
qed

text \<open>
  C8. For every call \<open>Init(level, service, env)\<close> that succeeds: if the trimmed \<open>service\<close>
  is empty, the \<open>service\<close> field and the recorded service name are \<open>unknown-service\<close>;
  independently, if the trimmed \<open>env\<close> is empty, the \<open>env\<close> field and the recorded
  environment name are \<open>dev\<close>. With \<open>LOG_LEVEL\<close> unset, \<open>Init("", "", "")\<close> succeeds with
  both defaults and the minimum severity \<open>info\<close>.
\<close>

theorem Init_default_identity:
  "(fst (Init tbl environ level service env st) = None \<and> TrimSpace service = [] \<longrightarrow>
      serviceName (snd (Init tbl environ level service env st)) = ''unknown-service'' \<and>
      map_option (\<lambda>l. map_of (ctxFields l) ''service'') (Log (snd (Init tbl environ level service env st))) =
        Some (Some ''unknown-service''))
   \<and> (fst (Init tbl environ level service env st) = None \<and> TrimSpace env = [] \<longrightarrow>
      envName (snd (Init tbl environ level service env st)) = ''dev'' \<and>
      map_option (\<lambda>l. map_of (ctxFields l) ''env'') (Log (snd (Init tbl environ level service env st))) =
        Some (Some ''dev''))
   \<and> (Getenv environ ''LOG_LEVEL'' = [] \<longrightarrow>
      fst (Init tbl environ [] [] [] st) = None \<and>
      map_option ctxFields (Log (snd (Init tbl environ [] [] [] st))) =
        Some [(''service'', ''unknown-service''), (''env'', ''dev'')] \<and>
      map_option coreLevel (Log (snd (Init tbl environ [] [] [] st))) = Some InfoLevel)"
proof (intro conjI impI)
  assume a: "fst (Init tbl environ level service env st) = None \<and> TrimSpace service = []"
  then obtain lvl where ok: "UnmarshalText tbl (ToLower tbl (resolvedLevel environ level)) = Inr lvl"
    unfolding Init_succeeds by blast
  from a show "serviceName (snd (Init tbl environ level service env st)) = ''unknown-service''"
    by (simp add: Init_state_ok [OF ok] resolvedName_def)
  from a show "map_option (\<lambda>l. map_of (ctxFields l) ''service'') (Log (snd (Init tbl environ level service env st))) =
        Some (Some ''unknown-service'')"
    by (simp add: Init_state_ok [OF ok] resolvedName_def)
next
  assume a: "fst (Init tbl environ level service env st) = None \<and> TrimSpace env = []"
  then obtain lvl where ok: "UnmarshalText tbl (ToLower tbl (resolvedLevel environ level)) = Inr lvl"
    unfolding Init_succeeds by blast
  from a show "envName (snd (Init tbl environ level service env st)) = ''dev''"
    by (simp add: Init_state_ok [OF ok] resolvedName_def)
  from a show "map_option (\<lambda>l. map_of (ctxFields l) ''env'') (Log (snd (Init tbl environ level service env st))) =
        Some (Some ''dev'')"
    by (simp add: Init_state_ok [OF ok] resolvedName_def)
next
  assume u: "Getenv environ ''LOG_LEVEL'' = []"
  have t: "TrimSpace [] = []" by (simp add: TrimSpace_def)
  have r: "resolvedLevel environ [] = ''info''"
    by (simp add: resolvedLevel_def u t)
  have ok: "UnmarshalText tbl (ToLower tbl (resolvedLevel environ [])) = Inr InfoLevel"
    by (simp add: r ToLower_info UnmarshalText_def unmarshalText_lower)
  show "fst (Init tbl environ [] [] [] st) = None"
    using ok by (simp add: Init_succeeds)
  show "map_option ctxFields (Log (snd (Init tbl environ [] [] [] st))) =
        Some [(''service'', ''unknown-service''), (''env'', ''dev'')]"
    by (simp add: Init_state_ok [OF ok] resolvedName_def t)
  show "map_option coreLevel (Log (snd (Init tbl environ [] [] [] st))) = Some InfoLevel"
    by (simp add: Init_state_ok [OF ok] conventionLogger_def)
qed

text \<open>
  Witness for C8: a \<open>service\<close> of one no-break space (\<open>U+00A0\<close>) and an \<open>env\<close> of an em
  space (\<open>U+2003\<close>) and a space are blank and give the defaults, and \<open>Init("", "", "")\<close>
  without \<open>LOG_LEVEL\<close> gives the defaults at \<open>info\<close>.
\<close>

theorem Init_default_identity_witness:
  "serviceName (snd (Init exampleTable noEnviron ''warn'' [CHR 0xC2, CHR 0xA0]
        [CHR 0xE2, CHR 0x80, CHR 0x83, CHR 0x20] initial)) = ''unknown-service''
   \<and> envName (snd (Init exampleTable noEnviron ''warn'' [CHR 0xC2, CHR 0xA0]
        [CHR 0xE2, CHR 0x80, CHR 0x83, CHR 0x20] initial)) = ''dev''
   \<and> map_option ctxFields (Log (snd (Init exampleTable noEnviron [] [] [] initial))) =
        Some [(''service'', ''unknown-service''), (''env'', ''dev'')]
   \<and> map_option coreLevel (Log (snd (Init exampleTable noEnviron [] [] [] initial))) = Some InfoLevel"
proof -
  let ?s = "[CHR 0xC2, CHR 0xA0]"
  let ?e = "[CHR 0xE2, CHR 0x80, CHR 0x83, CHR 0x20]"
  have h1: "fst (Init exampleTable noEnviron ''warn'' ?s ?e initial) = None \<and> TrimSpace ?s = []"
    by code_simp
  have h2: "fst (Init exampleTable noEnviron ''warn'' ?s ?e initial) = None \<and> TrimSpace ?e = []"
    by code_simp
  have h3: "Getenv noEnviron ''LOG_LEVEL'' = []"
    by code_simp
  note t = Init_default_identity [of exampleTable noEnviron "''warn''" ?s ?e initial]
  from t h1 have a: "serviceName (snd (Init exampleTable noEnviron ''warn'' ?s ?e initial)) = ''unknown-service''"
    by blast
  from t h2 have b: "envName (snd (Init exampleTable noEnviron ''warn'' ?s ?e initial)) = ''dev''"
    by blast
  from t h3 have c: "map_option ctxFields (Log (snd (Init exampleTable noEnviron [] [] [] initial))) =
        Some [(''service'', ''unknown-service''), (''env'', ''dev'')] \<and>
      map_option coreLevel (Log (snd (Init exampleTable noEnviron [] [] [] initial))) = Some InfoLevel"
    by blast
  from a b c show ?thesis by (simp only:)
qed

text \<open>
  C9. Every logger built by \<open>Init\<close> has caller capture switched on and stack traces
  switched on from \<open>error\<close>. Hence a record that it writes, at a call whose stack the
  runtime captured, has a \<open>caller\<close> member, and has a \<open>stacktrace\<close> member, not empty,
  exactly when its level is \<open>error\<close> or above; a record below \<open>error\<close> has none.
\<close>

theorem Init_caller_and_stacktrace:
  "fst (Init tbl environ level service env st) = None \<longrightarrow>
     (\<exists>l. Log (snd (Init tbl environ level service env st)) = Some l
        \<and> addCaller l \<and> addStack l = Some ErrorLevel
        \<and> (\<forall>lvl msg now frames.
              frames \<noteq> [] \<and> framePC (hd frames) \<noteq> 0 \<and> Enabled (coreLevel l) lvl \<longrightarrow>
              (\<exists>r. Write l lvl msg now frames = Some r
                 \<and> ''caller'' \<in> fst ` set r
                 \<and> (if levelNum ErrorLevel \<le> levelNum lvl
                     then (\<exists>stk. map_of r ''stacktrace'' = Some stk \<and> stk \<noteq> [])
                     else ''stacktrace'' \<notin> fst ` set r))))"
proof
  assume "fst (Init tbl environ level service env st) = None"
  from Init_Log [OF this] obtain lvl0 where
    l: "Log (snd (Init tbl environ level service env st)) =
       Some ((conventionLogger lvl0)\<lparr>ctxFields :=
                [(''service'', resolvedName ''unknown-service'' service),
                 (''env'', resolvedName ''dev'' env)]\<rparr>)" (is "_ = Some ?l")
    by blast
  have opts: "addCaller ?l \<and> addStack ?l = Some ErrorLevel"
    by (simp add: conventionLogger_def)
  have cl: "coreLevel ?l = lvl0"
    by (simp add: conventionLogger_def)
  have w: "\<exists>r. Write ?l lvl msg now frames = Some r
                 \<and> ''caller'' \<in> fst ` set r
                 \<and> (if levelNum ErrorLevel \<le> levelNum lvl
                     then (\<exists>stk. map_of r ''stacktrace'' = Some stk \<and> stk \<noteq> [])
                     else ''stacktrace'' \<notin> fst ` set r)"
    if "frames \<noteq> [] \<and> framePC (hd frames) \<noteq> 0 \<and> Enabled (coreLevel ?l) lvl" for lvl msg now frames
  proof -
    from that obtain frame rest where f: "frames = frame # rest"
      by (cases frames) auto
    from that have en: "Enabled lvl0 lvl" by (simp add: cl)
    from that f have pc: "framePC frame \<noteq> 0" by simp
    have ne: "formatFrames (frame # butlast rest) \<noteq> []"
      by (rule formatFrames_not_Nil) simp
    show ?thesis
      unfolding f Write_convention [OF en pc]
      using ne by (simp add: Enabled_def)
  qed
  from l opts w show "\<exists>l. Log (snd (Init tbl environ level service env st)) = Some l
        \<and> addCaller l \<and> addStack l = Some ErrorLevel
        \<and> (\<forall>lvl msg now frames.
              frames \<noteq> [] \<and> framePC (hd frames) \<noteq> 0 \<and> Enabled (coreLevel l) lvl \<longrightarrow>
              (\<exists>r. Write l lvl msg now frames = Some r
                 \<and> ''caller'' \<in> fst ` set r
                 \<and> (if levelNum ErrorLevel \<le> levelNum lvl
                     then (\<exists>stk. map_of r ''stacktrace'' = Some stk \<and> stk \<noteq> [])
                     else ''stacktrace'' \<notin> fst ` set r)))"
    by blast
qed

text \<open>
  Witness for C9: under the logger of \<open>Init("info", "svc", "prod")\<close>, with a stack of three
  frames, a record at \<open>error\<close> has a stack trace that is not empty and a record at \<open>info\<close>
  has none; both have a caller.
\<close>

theorem Init_caller_and_stacktrace_witness:
  "(\<exists>r stk. Write (the (Log (snd (Init exampleTable noEnviron ''info'' ''svc'' ''prod'' initial))))
        ErrorLevel ''boom'' ''2026-01-01T00:00:00Z''
        [\<lparr>framePC = 4198400, frameFunction = ''main.handler'', frameFile = ''/srv/app/cmd/api/main.go'', frameLine = 42\<rparr>,
         \<lparr>framePC = 4198000, frameFunction = ''main.main'', frameFile = ''/srv/app/cmd/api/main.go'', frameLine = 12\<rparr>,
         \<lparr>framePC = 4100000, frameFunction = ''runtime.main'', frameFile = ''/usr/local/go/src/runtime/proc.go'', frameLine = 272\<rparr>]
        = Some r \<and> ''caller'' \<in> fst ` set r \<and> map_of r ''stacktrace'' = Some stk \<and> stk \<noteq> [])
   \<and> (\<exists>r. Write (the (Log (snd (Init exampleTable noEnviron ''info'' ''svc'' ''prod'' initial))))
        InfoLevel ''started'' ''2026-01-01T00:00:00Z''
        [\<lparr>framePC = 4198400, frameFunction = ''main.handler'', frameFile = ''/srv/app/cmd/api/main.go'', frameLine = 42\<rparr>,
         \<lparr>framePC = 4198000, frameFunction = ''main.main'', frameFile = ''/srv/app/cmd/api/main.go'', frameLine = 12\<rparr>,
         \<lparr>framePC = 4100000, frameFunction = ''runtime.main'', frameFile = ''/usr/local/go/src/runtime/proc.go'', frameLine = 272\<rparr>]
        = Some r \<and> ''caller'' \<in> fst ` set r \<and> map_of r ''stacktrace'' = None)"
proof -
  let ?st = "snd (Init exampleTable noEnviron ''info'' ''svc'' ''prod'' initial)"
  let ?fs = "[\<lparr>framePC = 4198400, frameFunction = ''main.handler'', frameFile = ''/srv/app/cmd/api/main.go'', frameLine = 42\<rparr>,
         \<lparr>framePC = 4198000, frameFunction = ''main.main'', frameFile = ''/srv/app/cmd/api/main.go'', frameLine = 12\<rparr>,
         \<lparr>framePC = 4100000, frameFunction = ''runtime.main'', frameFile = ''/usr/local/go/src/runtime/proc.go'', frameLine = 272\<rparr>]"
  let ?now = "''2026-01-01T00:00:00Z''"
  have ok: "fst (Init exampleTable noEnviron ''info'' ''svc'' ''prod'' initial) = None"
    by code_simp
  have lv: "coreLevel (the (Log ?st)) = InfoLevel"
    by code_simp
  from Init_caller_and_stacktrace [of exampleTable noEnviron "''info''" "''svc''" "''prod''" initial] ok
  obtain l where l: "Log ?st = Some l"
    and w: "\<And>lvl msg now frames.
              frames \<noteq> [] \<and> framePC (hd frames) \<noteq> 0 \<and> Enabled (coreLevel l) lvl \<Longrightarrow>
              (\<exists>r. Write l lvl msg now frames = Some r
                 \<and> ''caller'' \<in> fst ` set r
                 \<and> (if levelNum ErrorLevel \<le> levelNum lvl
                     then (\<exists>stk. map_of r ''stacktrace'' = Some stk \<and> stk \<noteq> [])
                     else ''stacktrace'' \<notin> fst ` set r))"
    by blast
  from l have the_l: "the (Log ?st) = l" by simp
  from lv the_l have cl: "coreLevel l = InfoLevel" by simp
  have e1: "?fs \<noteq> [] \<and> framePC (hd ?fs) \<noteq> 0 \<and> Enabled (coreLevel l) ErrorLevel"
    by (simp add: cl Enabled_def)
  have e2: "?fs \<noteq> [] \<and> framePC (hd ?fs) \<noteq> 0 \<and> Enabled (coreLevel l) InfoLevel"
    by (simp add: cl Enabled_def)
  from w [OF e1, of "''boom''" ?now] obtain r1 stk where
    r1: "Write l ErrorLevel ''boom'' ?now ?fs = Some r1" "''caller'' \<in> fst ` set r1"
      "map_of r1 ''stacktrace'' = Some stk" "stk \<noteq> []"
    by auto
  from w [OF e2, of "''started''" ?now] obtain r2 where
    r2: "Write l InfoLevel ''started'' ?now ?fs = Some r2" "''caller'' \<in> fst ` set r2"
      "''stacktrace'' \<notin> fst ` set r2"
    by auto
  from r2(3) have n: "map_of r2 ''stacktrace'' = None"
    by (simp add: map_of_eq_None_iff)
  show ?thesis
    unfolding the_l using r1 r2(1,2) n by blast
qed

text \<open>
  C10. For every \<open>service\<close> or \<open>env\<close> argument that is not empty after trimming, a
  successful \<open>Init\<close> records and attaches the argument as it was passed, surrounding white
  space included: the trimmed string is used for the emptiness test only.
\<close>

theorem Init_identity_verbatim:
  "(fst (Init tbl environ level service env st) = None \<and> TrimSpace service \<noteq> [] \<longrightarrow>
      serviceName (snd (Init tbl environ level service env st)) = service \<and>
      map_option (\<lambda>l. map_of (ctxFields l) ''service'') (Log (snd (Init tbl environ level service env st))) =
        Some (Some service))
   \<and> (fst (Init tbl environ level service env st) = None \<and> TrimSpace env \<noteq> [] \<longrightarrow>
      envName (snd (Init tbl environ level service env st)) = env \<and>
      map_option (\<lambda>l. map_of (ctxFields l) ''env'') (Log (snd (Init tbl environ level service env st))) =
        Some (Some env))"
proof (intro conjI impI)
  assume a: "fst (Init tbl environ level service env st) = None \<and> TrimSpace service \<noteq> []"
  then obtain lvl where ok: "UnmarshalText tbl (ToLower tbl (resolvedLevel environ level)) = Inr lvl"
    unfolding Init_succeeds by blast
  from a show "serviceName (snd (Init tbl environ level service env st)) = service"
    by (simp add: Init_state_ok [OF ok] resolvedName_def)
  from a show "map_option (\<lambda>l. map_of (ctxFields l) ''service'') (Log (snd (Init tbl environ level service env st))) =
        Some (Some service)"
    by (simp add: Init_state_ok [OF ok] resolvedName_def)
next
  assume a: "fst (Init tbl environ level service env st) = None \<and> TrimSpace env \<noteq> []"
  then obtain lvl where ok: "UnmarshalText tbl (ToLower tbl (resolvedLevel environ level)) = Inr lvl"
    unfolding Init_succeeds by blast
  from a show "envName (snd (Init tbl environ level service env st)) = env"
    by (simp add: Init_state_ok [OF ok] resolvedName_def)
  from a show "map_option (\<lambda>l. map_of (ctxFields l) ''env'') (Log (snd (Init tbl environ level service env st))) =
        Some (Some env)"
    by (simp add: Init_state_ok [OF ok] resolvedName_def)
qed

text \<open>
  Witness for C10: the service \<open>" orders-api"\<close> followed by a no-break space (\<open>U+00A0\<close>)
  and the env \<open>"prod\n"\<close> are stored with their white space, although trimming the
  service gives \<open>"orders-api"\<close>.
\<close>

theorem Init_identity_verbatim_witness:
  "serviceName (snd (Init exampleTable noEnviron ''info''
        ('' orders-api'' @ [CHR 0xC2, CHR 0xA0]) [CHR ''p'', CHR ''r'', CHR ''o'', CHR ''d'', CHR 0x0A] initial))
     = '' orders-api'' @ [CHR 0xC2, CHR 0xA0]
   \<and> map_option (\<lambda>l. map_of (ctxFields l) ''env'')
        (Log (snd (Init exampleTable noEnviron ''info''
        ('' orders-api'' @ [CHR 0xC2, CHR 0xA0]) [CHR ''p'', CHR ''r'', CHR ''o'', CHR ''d'', CHR 0x0A] initial)))
     = Some (Some [CHR ''p'', CHR ''r'', CHR ''o'', CHR ''d'', CHR 0x0A])
   \<and> TrimSpace ('' orders-api'' @ [CHR 0xC2, CHR 0xA0]) = ''orders-api''"
proof -
  let ?svc = "'' orders-api'' @ [CHR 0xC2, CHR 0xA0]"
  let ?env = "[CHR ''p'', CHR ''r'', CHR ''o'', CHR ''d'', CHR 0x0A]"
  have h1: "fst (Init exampleTable noEnviron ''info'' ?svc ?env initial) = None \<and>
      TrimSpace ?svc \<noteq> []"
    by code_simp
  have h2: "fst (Init exampleTable noEnviron ''info'' ?svc ?env initial) = None \<and>
      TrimSpace ?env \<noteq> []"
    by code_simp
  have h3: "TrimSpace ?svc = ''orders-api''"
    by code_simp
  note t = Init_identity_verbatim [of exampleTable noEnviron "''info''" ?svc ?env initial]
  from t h1 have a: "serviceName (snd (Init exampleTable noEnviron ''info'' ?svc ?env initial)) = ?svc"
    by blast
  from t h2 have b: "map_option (\<lambda>l. map_of (ctxFields l) ''env'')
        (Log (snd (Init exampleTable noEnviron ''info'' ?svc ?env initial))) = Some (Some ?env)"
    by blast
  from a b h3 show ?thesis by (simp only:)
qed

end
